theory Spec2Isabelle
  imports Main "HOL-Library.AList"
begin

section \<open>Text\<close>

text \<open>
  A Python \<open>str\<close> is a sequence of Unicode code points and \<open>len\<close> counts code points,
  so a text is a list of code points. The literals of the sources that are not ASCII
  are written as their code points; \<open>ascii\<close> embeds an ASCII literal.
\<close>

type_synonym pystr = "nat list"

definition ascii :: "string \<Rightarrow> pystr" where
  "ascii s = map of_char s"

text \<open>Truthiness of an optional text: \<open>None\<close> and the empty text are falsy.\<close>

fun truthy :: "pystr option \<Rightarrow> bool" where
  "truthy None = False"
| "truthy (Some s) = (s \<noteq> [])"

text \<open>The value of an optional argument, \<open>None\<close> read as empty.\<close>

fun text_of :: "pystr option \<Rightarrow> pystr" where
  "text_of None = []"
| "text_of (Some s) = s"

fun list_of :: "'a list option \<Rightarrow> 'a list" where
  "list_of None = []"
| "list_of (Some xs) = xs"

text \<open>\<open>str(n)\<close> for an integer: decimal digits, with a sign.\<close>

fun str_nat :: "nat \<Rightarrow> pystr" where
  "str_nat n = (if n < 10 then [48 + n] else str_nat (n div 10) @ [48 + n mod 10])"

declare str_nat.simps [simp del]

definition str_int :: "int \<Rightarrow> pystr" where
  "str_int i = (if i < 0 then ascii ''-'' @ str_nat (nat (- i)) else str_nat (nat i))"

text \<open>\<open>sep.join(xs)\<close>.\<close>

fun join :: "pystr \<Rightarrow> pystr list \<Rightarrow> pystr" where
  "join sep [] = []"
| "join sep [x] = x"
| "join sep (x # y # xs) = x @ sep @ join sep (y # xs)"

text \<open>
  \<open>str.splitlines()\<close>: the lines without their terminators, with no empty last line
  after a final terminator. The line boundaries are those of Python; a carriage return
  followed by a line feed is one boundary.
\<close>

definition line_boundaries :: "nat list" where
  "line_boundaries = [10, 11, 12, 13, 28, 29, 30, 0x85, 0x2028, 0x2029]"

fun splitlines_from :: "pystr \<Rightarrow> pystr \<Rightarrow> pystr list" where
  "splitlines_from cur [] = (if cur = [] then [] else [cur])"
| "splitlines_from cur (c # cs) =
     (if c = 13 then
        (case cs of
           [] \<Rightarrow> [cur]
         | d # ds \<Rightarrow> if d = 10 then cur # splitlines_from [] ds else cur # splitlines_from [] (d # ds))
      else if c \<in> set line_boundaries then cur # splitlines_from [] cs
      else splitlines_from (cur @ [c]) cs)"

definition py_splitlines :: "pystr \<Rightarrow> pystr list" where
  "py_splitlines s = splitlines_from [] s"

text \<open>\<open>str.strip()\<close>: the white space of \<open>str.isspace\<close> is taken off both ends.\<close>

definition is_space :: "nat \<Rightarrow> bool" where
  "is_space c = (c \<in> set [9, 10, 11, 12, 13, 28, 29, 30, 31, 32, 0x85, 0xA0, 0x1680, 0x2028, 0x2029,
                            0x202F, 0x205F, 0x3000] \<or> (0x2000 \<le> c \<and> c \<le> 0x200A))"

definition strip :: "pystr \<Rightarrow> pystr" where
  "strip s = rev (dropWhile is_space (rev (dropWhile is_space s)))"

text \<open>\<open>sub in s\<close> for texts, and the index of the first element of a list that
  satisfies a test.\<close>

fun contains :: "pystr \<Rightarrow> pystr \<Rightarrow> bool" where
  "contains sub [] = (sub = [])"
| "contains sub (c # cs) = (take (length sub) (c # cs) = sub \<or> contains sub cs)"

fun first_index :: "('a \<Rightarrow> bool) \<Rightarrow> 'a list \<Rightarrow> nat option" where
  "first_index P [] = None"
| "first_index P (x # xs) = (if P x then Some 0 else map_option Suc (first_index P xs))"

section \<open>Faults and tool results\<close>

text \<open>
  A raised exception is a value. \<open>ToolError\<close> is the exception of \<open>app/exceptions.py\<close>;
  the other constructors are the built-in exceptions the modelled code raises or can
  meet, and \<open>OtherException\<close> stands for any further subclass of \<open>Exception\<close>.
\<close>

datatype fault =
    ToolError pystr
  | RuntimeError pystr
  | ValueError pystr
  | TypeError pystr
  | AttributeError pystr
  | IndexError
  | ZeroDivisionError
  | OtherException pystr

text \<open>\<open>str(e)\<close> of a caught fault: its message.\<close>

fun str_fault :: "fault \<Rightarrow> pystr" where
  "str_fault (ToolError m) = m"
| "str_fault (RuntimeError m) = m"
| "str_fault (ValueError m) = m"
| "str_fault (TypeError m) = m"
| "str_fault (AttributeError m) = m"
| "str_fault IndexError = ascii ''list index out of range''"
| "str_fault ZeroDivisionError = ascii ''division by zero''"
| "str_fault (OtherException m) = m"

text \<open>\<open>ToolResult\<close> of \<open>app/tool/base.py\<close>: its three optional fields
  \<open>output\<close>, \<open>error\<close> and \<open>system\<close>.\<close>

record tool_result =
  result_output :: "pystr option"
  result_error :: "pystr option"
  result_system :: "pystr option"

definition ToolResult_output :: "pystr \<Rightarrow> tool_result" where
  "ToolResult_output s = \<lparr>result_output = Some s, result_error = None, result_system = None\<rparr>"

section \<open>The planning tool (app/tool/planning.py)\<close>

text \<open>A plan is the dictionary \<open>_create_plan\<close> builds: five entries, three of them
  parallel lists. Statuses are texts, as in the source.\<close>

record plan =
  plan_id :: pystr
  title :: pystr
  steps :: "pystr list"
  step_statuses :: "pystr list"
  step_notes :: "pystr list"

text \<open>
  The tool's state: the dictionary of the plans, in insertion order (an association
  list with one entry per key), and the id of the active plan.
\<close>

record planning_tool =
  plans :: "(pystr \<times> plan) list"
  current_plan_id :: "pystr option"

definition not_started :: pystr where "not_started = ascii ''not_started''"
definition in_progress :: pystr where "in_progress = ascii ''in_progress''"
definition completed :: pystr where "completed = ascii ''completed''"
definition blocked :: pystr where "blocked = ascii ''blocked''"

text \<open>The symbol \<open>_format_plan\<close> draws for a status: U+25A1, U+25B6, U+2713, U+203C,
  and U+25A1 again for any other text.\<close>

definition status_sym :: "pystr \<Rightarrow> pystr" where
  "status_sym status =
     (if status = not_started then [0x25A1]
      else if status = in_progress then [0x25B6]
      else if status = completed then [0x2713]
      else if status = blocked then [0x203C]
      else [0x25A1])"

text \<open>
  The loop of \<open>_format_plan\<close> over \<open>enumerate(zip(steps, step_statuses, step_notes))\<close>:
  one line \<open>i. symbol step\<close> per step and, when the note is not empty, a note line.
  \<open>zip\<close> stops at the shortest list.
\<close>

fun format_steps :: "nat \<Rightarrow> (pystr \<times> pystr \<times> pystr) list \<Rightarrow> pystr" where
  "format_steps i [] = []"
| "format_steps i ((step, status, note) # rest) =
     str_nat i @ ascii ''. '' @ status_sym status @ ascii '' '' @ step @ [10]
     @ (if note \<noteq> [] then ascii ''   '' @ [0x5907, 0x6CE8, 0xFF1A] @ note @ [10] else [])
     @ format_steps (Suc i) rest"

text \<open>
  \<open>_format_plan\<close>. The percentage \<open>completed/total*100\<close> is a floating-point value
  printed with one decimal; its rendering is the parameter \<open>pct\<close>, applied to the two
  counts. The division raises \<open>ZeroDivisionError\<close> on a plan without steps.
\<close>

definition format_plan :: "(nat \<Rightarrow> nat \<Rightarrow> pystr) \<Rightarrow> plan \<Rightarrow> fault + pystr" where
  "format_plan pct p =
     (let header = [0x8BA1, 0x5212, 0xFF1A] @ title p @ ascii '' (ID'' @ [0xFF1A] @ plan_id p
                   @ ascii '')'' @ [10];
          rule = replicate (length header) (61::nat) @ [10, 10];
          total = length (steps p);
          done = length (filter (\<lambda>s. s = completed) (step_statuses p))
      in if total = 0 then Inl ZeroDivisionError
         else Inr (header @ rule
           @ [0x8FDB, 0x5EA6, 0xFF1A] @ str_nat done @ ascii ''/'' @ str_nat total
           @ ascii '' ('' @ pct done total @ ascii ''%)'' @ [10]
           @ [0x72B6, 0x6001, 0xFF1A, 0x5B8C, 0x6210] @ str_nat done
           @ [0x4E2A, 0xFF0C, 0x8FDB, 0x884C, 0x4E2D]
           @ str_nat (count_list (step_statuses p) in_progress)
           @ [0x4E2A, 0xFF0C, 0x963B, 0x585E]
           @ str_nat (count_list (step_statuses p) blocked)
           @ [0x4E2A, 0xFF0C, 0x672A, 0x5F00, 0x59CB]
           @ str_nat (count_list (step_statuses p) not_started)
           @ [0x4E2A] @ [10, 10]
           @ [0x6B65, 0x9AA4, 0x8BE6, 0x60C5, 0xFF1A] @ [10]
           @ format_steps 0 (zip (steps p) (zip (step_statuses p) (step_notes p)))))"

text \<open>A command's outcome: the result or the fault raised, and the tool afterwards.\<close>

type_synonym planning_outcome = "(fault + tool_result) \<times> planning_tool"

text \<open>The result of a command that ends by rendering a plan after a prefix.\<close>

definition render_result :: "(nat \<Rightarrow> nat \<Rightarrow> pystr) \<Rightarrow> pystr \<Rightarrow> plan \<Rightarrow> fault + tool_result" where
  "render_result pct prefix p =
     (case format_plan pct p of
        Inl e \<Rightarrow> Inl e
      | Inr s \<Rightarrow> Inr (ToolResult_output (prefix @ s)))"

text \<open>\<open>_create_plan\<close>.\<close>

definition create_plan ::
  "(nat \<Rightarrow> nat \<Rightarrow> pystr) \<Rightarrow> planning_tool \<Rightarrow> pystr option \<Rightarrow> pystr option
     \<Rightarrow> pystr list option \<Rightarrow> planning_outcome" where
  "create_plan pct t pid ttl stps =
     (if \<not> truthy pid then
        (Inl (ToolError ([0x521B, 0x5EFA, 0x8BA1, 0x5212, 0x65F6, 0x5FC5, 0x987B, 0x6307, 0x5B9A]
                @ ascii ''plan_id'')), t)
      else let pid' = text_of pid in
      if map_of (plans t) pid' \<noteq> None then
        (Inl (ToolError (ascii ''ID'' @ [0x4E3A] @ pid'
                @ [0x7684, 0x8BA1, 0x5212, 0x5DF2, 0x5B58, 0x5728])), t)
      else if \<not> truthy ttl then
        (Inl (ToolError [0x5FC5, 0x987B, 0x63D0, 0x4F9B, 0x8BA1, 0x5212, 0x6807, 0x9898]), t)
      else if stps = None \<or> stps = Some [] then
        (Inl (ToolError [0x6B65, 0x9AA4, 0x5FC5, 0x987B, 0x4E3A, 0x975E, 0x7A7A, 0x5B57, 0x7B26,
                0x4E32, 0x5217, 0x8868]), t)
      else let stps' = list_of stps;
               p = \<lparr>plan_id = pid', title = text_of ttl, steps = stps',
                    step_statuses = replicate (length stps') not_started,
                    step_notes = replicate (length stps') []\<rparr>;
               t' = t\<lparr>plans := AList.update pid' p (plans t), current_plan_id := Some pid'\<rparr>
           in (render_result pct
                ([0x8BA1, 0x5212, 0x521B, 0x5EFA, 0x6210, 0x529F, 0xFF1A] @ pid' @ [10, 10]) p, t'))"

text \<open>
  The loop of \<open>_update_plan\<close> over \<open>enumerate(steps)\<close>: a step equal to the old step
  at its index keeps the old status and note, any other starts afresh. Reading
  \<open>old_statuses[i]\<close> or \<open>old_notes[i]\<close> past the end raises \<open>IndexError\<close>.
\<close>

fun carry_over ::
  "pystr list \<Rightarrow> pystr list \<Rightarrow> pystr list \<Rightarrow> nat \<Rightarrow> pystr list
     \<Rightarrow> fault + (pystr list \<times> pystr list)" where
  "carry_over old_steps old_statuses old_notes i [] = Inr ([], [])"
| "carry_over old_steps old_statuses old_notes i (step # rest) =
     (if i < length old_steps \<and> step = old_steps ! i then
        (if i < length old_statuses \<and> i < length old_notes then
           (case carry_over old_steps old_statuses old_notes (Suc i) rest of
              Inl e \<Rightarrow> Inl e
            | Inr (new_statuses, new_notes) \<Rightarrow>
                Inr (old_statuses ! i # new_statuses, old_notes ! i # new_notes))
         else Inl IndexError)
      else
        (case carry_over old_steps old_statuses old_notes (Suc i) rest of
           Inl e \<Rightarrow> Inl e
         | Inr (new_statuses, new_notes) \<Rightarrow> Inr (not_started # new_statuses, [] # new_notes)))"

text \<open>\<open>_update_plan\<close>. The title is stored before the steps are looked at, so it stays
  stored when the loop raises.\<close>

definition update_plan ::
  "(nat \<Rightarrow> nat \<Rightarrow> pystr) \<Rightarrow> planning_tool \<Rightarrow> pystr option \<Rightarrow> pystr option
     \<Rightarrow> pystr list option \<Rightarrow> planning_outcome" where
  "update_plan pct t pid ttl stps =
     (if \<not> truthy pid then
        (Inl (ToolError ([0x66F4, 0x65B0, 0x8BA1, 0x5212, 0x65F6, 0x5FC5, 0x987B, 0x6307, 0x5B9A]
                @ ascii ''plan_id'')), t)
      else let pid' = text_of pid in
      case map_of (plans t) pid' of
        None \<Rightarrow>
          (Inl (ToolError ([0x672A, 0x627E, 0x5230] @ ascii ''ID'' @ [0x4E3A] @ pid'
                  @ [0x7684, 0x8BA1, 0x5212])), t)
      | Some p0 \<Rightarrow>
          let p1 = (if truthy ttl then p0\<lparr>title := text_of ttl\<rparr> else p0);
              t1 = t\<lparr>plans := AList.update pid' p1 (plans t)\<rparr>
          in if stps = None \<or> stps = Some [] then
               (render_result pct
                  ([0x8BA1, 0x5212, 0x66F4, 0x65B0, 0x6210, 0x529F, 0xFF1A] @ pid' @ [10, 10]) p1, t1)
             else
               (case carry_over (steps p1) (step_statuses p1) (step_notes p1) 0 (list_of stps) of
                  Inl e \<Rightarrow> (Inl e, t1)
                | Inr (new_statuses, new_notes) \<Rightarrow>
                    let p2 = p1\<lparr>steps := list_of stps, step_statuses := new_statuses,
                                 step_notes := new_notes\<rparr>
                    in (render_result pct
                          ([0x8BA1, 0x5212, 0x66F4, 0x65B0, 0x6210, 0x529F, 0xFF1A] @ pid' @ [10, 10]) p2,
                        t1\<lparr>plans := AList.update pid' p2 (plans t1)\<rparr>)))"

text \<open>\<open>_list_plans\<close>: one line per plan, in the dictionary's order.\<close>

fun list_lines :: "pystr option \<Rightarrow> (pystr \<times> plan) list \<Rightarrow> pystr" where
  "list_lines cur [] = []"
| "list_lines cur ((pid, p) # rest) =
     [0x2022] @ ascii '' '' @ pid
     @ (if Some pid = cur then ascii '' ('' @ [0x5F53, 0x524D] @ ascii '')'' else [])
     @ ascii '': '' @ title p @ ascii '' - ''
     @ str_nat (length (filter (\<lambda>s. s = completed) (step_statuses p)))
     @ ascii ''/'' @ str_nat (length (steps p)) @ [0x6B65, 0x9AA4, 0x5B8C, 0x6210] @ [10]
     @ list_lines cur rest"

definition list_plans :: "planning_tool \<Rightarrow> planning_outcome" where
  "list_plans t =
     (if plans t = [] then
        (Inr (ToolResult_output ([0x6682, 0x65E0, 0x4EFB, 0x4F55, 0x8BA1, 0x5212, 0xFF0C, 0x8BF7,
                0x4F7F, 0x7528] @ ascii ''create'' @ [0x6307, 0x4EE4, 0x521B, 0x5EFA])), t)
      else
        (Inr (ToolResult_output ([0x53EF, 0x7528, 0x8BA1, 0x5212, 0x5217, 0x8868, 0xFF1A] @ [10]
                @ list_lines (current_plan_id t) (plans t))), t))"

text \<open>\<open>plan_id or self._current_plan_id\<close>.\<close>

definition or_current :: "pystr option \<Rightarrow> planning_tool \<Rightarrow> pystr option" where
  "or_current pid t = (if truthy pid then pid else current_plan_id t)"

text \<open>\<open>_get_plan\<close>. A key that is \<open>None\<close> is in no dictionary of the tool.\<close>

definition get_plan :: "(nat \<Rightarrow> nat \<Rightarrow> pystr) \<Rightarrow> planning_tool \<Rightarrow> pystr option \<Rightarrow> planning_outcome" where
  "get_plan pct t pid =
     (if \<not> truthy pid \<and> \<not> truthy (current_plan_id t) then
        (Inl (ToolError ([0x672A, 0x6307, 0x5B9A, 0x8BA1, 0x5212] @ ascii ''ID''
                @ [0x4E14, 0x6CA1, 0x6709, 0x5F53, 0x524D, 0x6FC0, 0x6D3B, 0x8BA1, 0x5212])), t)
      else let pid' = text_of (or_current pid t) in
      case map_of (plans t) pid' of
        None \<Rightarrow>
          (Inl (ToolError ([0x672A, 0x627E, 0x5230] @ ascii ''ID'' @ [0x4E3A] @ pid'
                  @ [0x7684, 0x8BA1, 0x5212])), t)
      | Some p \<Rightarrow> (render_result pct [] p, t))"

text \<open>\<open>_set_active_plan\<close>.\<close>

definition set_active_plan ::
  "(nat \<Rightarrow> nat \<Rightarrow> pystr) \<Rightarrow> planning_tool \<Rightarrow> pystr option \<Rightarrow> planning_outcome" where
  "set_active_plan pct t pid =
     (if \<not> truthy pid then
        (Inl (ToolError ([0x5FC5, 0x987B, 0x6307, 0x5B9A, 0x8981, 0x6FC0, 0x6D3B, 0x7684]
                @ ascii ''plan_id'')), t)
      else let pid' = text_of pid in
      case map_of (plans t) pid' of
        None \<Rightarrow>
          (Inl (ToolError ([0x672A, 0x627E, 0x5230] @ ascii ''ID'' @ [0x4E3A] @ pid'
                  @ [0x7684, 0x8BA1, 0x5212])), t)
      | Some p \<Rightarrow>
          (render_result pct ([0x5DF2, 0x6FC0, 0x6D3B, 0x8BA1, 0x5212, 0xFF1A] @ pid' @ [10, 10]) p,
           t\<lparr>current_plan_id := Some pid'\<rparr>))"

text \<open>
  \<open>_mark_step\<close>. The index is checked against \<open>steps\<close>; the two assignments write into
  \<open>step_statuses\<close> and \<open>step_notes\<close> and raise \<open>IndexError\<close> past the end of these, the
  first assignment staying done when the second raises.
\<close>

definition valid_statuses :: "pystr list" where
  "valid_statuses = [not_started, in_progress, completed, blocked]"

definition mark_step ::
  "(nat \<Rightarrow> nat \<Rightarrow> pystr) \<Rightarrow> planning_tool \<Rightarrow> pystr option \<Rightarrow> int option \<Rightarrow> pystr option
     \<Rightarrow> pystr option \<Rightarrow> planning_outcome" where
  "mark_step pct t pid step_index step_status notes =
     (let pid0 = or_current pid t in
      if \<not> truthy pid0 then
        (Inl (ToolError ([0x672A, 0x6307, 0x5B9A, 0x8BA1, 0x5212] @ ascii ''ID''
                @ [0x4E14, 0x6CA1, 0x6709, 0x5F53, 0x524D, 0x6FC0, 0x6D3B, 0x8BA1, 0x5212])), t)
      else let pid' = text_of pid0 in
      case map_of (plans t) pid' of
        None \<Rightarrow>
          (Inl (ToolError ([0x672A, 0x627E, 0x5230] @ ascii ''ID'' @ [0x4E3A] @ pid'
                  @ [0x7684, 0x8BA1, 0x5212])), t)
      | Some p \<Rightarrow>
         (case step_index of
            None \<Rightarrow>
              (Inl (ToolError [0x5FC5, 0x987B, 0x6307, 0x5B9A, 0x6B65, 0x9AA4, 0x7D22, 0x5F15]), t)
          | Some i \<Rightarrow>
              if i < 0 \<or> i \<ge> int (length (steps p)) then
                (Inl (ToolError ([0x6B65, 0x9AA4, 0x7D22, 0x5F15] @ str_int i
                        @ [0x8D85, 0x51FA, 0x8303, 0x56F4])), t)
              else if truthy step_status \<and> text_of step_status \<notin> set valid_statuses then
                (Inl (ToolError [0x65E0, 0x6548, 0x7684, 0x72B6, 0x6001, 0x503C]), t)
              else if truthy step_status \<and> nat i \<ge> length (step_statuses p) then
                (Inl IndexError, t)
              else
                let p1 = (if truthy step_status
                          then p\<lparr>step_statuses := (step_statuses p)[nat i := text_of step_status]\<rparr>
                          else p);
                    t1 = t\<lparr>plans := AList.update pid' p1 (plans t)\<rparr>
                in if truthy notes \<and> nat i \<ge> length (step_notes p1) then (Inl IndexError, t1)
                   else
                     let p2 = (if truthy notes
                               then p1\<lparr>step_notes := (step_notes p1)[nat i := text_of notes]\<rparr>
                               else p1)
                     in (render_result pct
                           ([0x6B65, 0x9AA4] @ str_int i @ [0x5DF2, 0x66F4, 0x65B0] @ [10, 10]) p2,
                         t1\<lparr>plans := AList.update pid' p2 (plans t1)\<rparr>)))"

text \<open>\<open>_delete_plan\<close>.\<close>

definition delete_plan :: "planning_tool \<Rightarrow> pystr option \<Rightarrow> planning_outcome" where
  "delete_plan t pid =
     (if \<not> truthy pid then
        (Inl (ToolError ([0x5FC5, 0x987B, 0x6307, 0x5B9A, 0x8981, 0x5220, 0x9664, 0x7684]
                @ ascii ''plan_id'')), t)
      else let pid' = text_of pid in
      if map_of (plans t) pid' = None then
        (Inl (ToolError ([0x672A, 0x627E, 0x5230] @ ascii ''ID'' @ [0x4E3A] @ pid'
                @ [0x7684, 0x8BA1, 0x5212])), t)
      else
        (Inr (ToolResult_output ([0x5DF2, 0x5220, 0x9664, 0x8BA1, 0x5212, 0xFF1A] @ pid')),
         t\<lparr>plans := AList.delete pid' (plans t),
           current_plan_id := (if current_plan_id t = Some pid' then None else current_plan_id t)\<rparr>))"

text \<open>The keyword arguments of \<open>PlanningTool.execute\<close>.\<close>

record planning_args =
  command :: pystr
  arg_plan_id :: "pystr option"
  arg_title :: "pystr option"
  arg_steps :: "pystr list option"
  arg_step_index :: "int option"
  arg_step_status :: "pystr option"
  arg_step_notes :: "pystr option"

text \<open>\<open>PlanningTool.execute\<close>: the dispatch on the command.\<close>

definition PlanningTool_execute ::
  "(nat \<Rightarrow> nat \<Rightarrow> pystr) \<Rightarrow> planning_tool \<Rightarrow> planning_args \<Rightarrow> planning_outcome" where
  "PlanningTool_execute pct t a =
     (if command a = ascii ''create'' then create_plan pct t (arg_plan_id a) (arg_title a) (arg_steps a)
      else if command a = ascii ''update'' then
        update_plan pct t (arg_plan_id a) (arg_title a) (arg_steps a)
      else if command a = ascii ''list'' then list_plans t
      else if command a = ascii ''get'' then get_plan pct t (arg_plan_id a)
      else if command a = ascii ''set_active'' then set_active_plan pct t (arg_plan_id a)
      else if command a = ascii ''mark_step'' then
        mark_step pct t (arg_plan_id a) (arg_step_index a) (arg_step_status a) (arg_step_notes a)
      else if command a = ascii ''delete'' then delete_plan t (arg_plan_id a)
      else (Inl (ToolError ([0x4E0D, 0x652F, 0x6301, 0x7684, 0x6307, 0x4EE4, 0xFF1A] @ command a)), t))"

text \<open>The invariant of a plan: its three lists have the same length; and of the tool:
  every stored plan has it.\<close>

definition parallel_arrays :: "plan \<Rightarrow> bool" where
  "parallel_arrays p =
     (length (steps p) = length (step_statuses p) \<and> length (step_statuses p) = length (step_notes p))"

definition all_parallel :: "planning_tool \<Rightarrow> bool" where
  "all_parallel t = list_all (\<lambda>(k, p). parallel_arrays p) (plans t)"

section \<open>The tool registry (app/tool/base.py, app/tool/tool_collection.py)\<close>

text \<open>
  \<open>BaseTool\<close>: the metadata and the abstract \<open>execute\<close>. A call passes keyword
  arguments (a dictionary, here an association list over any value type) and either
  returns a value of any type or raises. The state a tool keeps for itself is not part
  of the registry; a tool stands here for its behaviour on one call.
\<close>

record ('v, 'r, 'p) base_tool =
  name :: pystr
  description :: pystr
  parameters :: "'p option"
  execute :: "(pystr \<times> 'v) list \<Rightarrow> fault + 'r"

text \<open>\<open>BaseTool.to_param\<close>: the dictionary advertised to the model.\<close>

record 'p tool_param =
  param_type :: pystr
  function_name :: pystr
  function_description :: pystr
  function_parameters :: "'p option"

definition to_param :: "('v, 'r, 'p) base_tool \<Rightarrow> 'p tool_param" where
  "to_param tool = \<lparr>param_type = ascii ''function'', function_name = name tool,
     function_description = description tool, function_parameters = parameters tool\<rparr>"

text \<open>\<open>ToolFailure(error=...)\<close>: a result with only the error set.\<close>

definition failure :: "pystr \<Rightarrow> tool_result" where
  "failure msg = \<lparr>result_output = None, result_error = Some msg, result_system = None\<rparr>"

text \<open>What \<open>ToolCollection.execute\<close> returns: the tool's own value, or a \<open>ToolFailure\<close>
  the registry built.\<close>

datatype 'r executed = Returned 'r | ToolFailure tool_result

text \<open>\<open>ToolCollection\<close>: the tuple of the tools and the dictionary from names to tools.\<close>

record ('v, 'r, 'p) tool_collection =
  tools :: "('v, 'r, 'p) base_tool list"
  tool_map :: "pystr \<rightharpoonup> ('v, 'r, 'p) base_tool"

text \<open>\<open>__init__\<close>: in the dictionary comprehension a later tool of the same name wins.\<close>

definition ToolCollection :: "('v, 'r, 'p) base_tool list \<Rightarrow> ('v, 'r, 'p) tool_collection" where
  "ToolCollection ts =
     \<lparr>tools = ts, tool_map = foldl (\<lambda>m tool. m(name tool \<mapsto> tool)) Map.empty ts\<rparr>"

definition to_params :: "('v, 'r, 'p) tool_collection \<Rightarrow> 'p tool_param list" where
  "to_params c = map to_param (tools c)"

text \<open>\<open>ToolCollection.execute\<close>: only \<open>ToolError\<close> is caught; \<open>tool_input or {}\<close> reads
  a missing input as no arguments.\<close>

definition ToolCollection_execute ::
  "('v, 'r, 'p) tool_collection \<Rightarrow> pystr \<Rightarrow> (pystr \<times> 'v) list option \<Rightarrow> fault + 'r executed" where
  "ToolCollection_execute c nm tool_input =
     (case tool_map c nm of
        None \<Rightarrow> Inr (ToolFailure (failure ([0x5DE5, 0x5177, 0x4E0D, 0x5B58, 0x5728, 0xFF1A] @ nm)))
      | Some tool \<Rightarrow>
          (case execute tool (list_of tool_input) of
             Inr result \<Rightarrow> Inr (Returned result)
           | Inl (ToolError m) \<Rightarrow> Inr (ToolFailure (failure m))
           | Inl e \<Rightarrow> Inl e))"

definition get_tool :: "('v, 'r, 'p) tool_collection \<Rightarrow> pystr \<Rightarrow> ('v, 'r, 'p) base_tool option" where
  "get_tool c nm = tool_map c nm"

text \<open>\<open>add_tool\<close>: the tuple grows by the tool, the dictionary entry is set.\<close>

definition add_tool ::
  "('v, 'r, 'p) tool_collection \<Rightarrow> ('v, 'r, 'p) base_tool \<Rightarrow> ('v, 'r, 'p) tool_collection" where
  "add_tool c tool = c\<lparr>tools := tools c @ [tool], tool_map := (tool_map c)(name tool \<mapsto> tool)\<rparr>"

definition add_tools ::
  "('v, 'r, 'p) tool_collection \<Rightarrow> ('v, 'r, 'p) base_tool list \<Rightarrow> ('v, 'r, 'p) tool_collection" where
  "add_tools c ts = foldl add_tool c ts"

text \<open>
  The planning tool in state \<open>t\<close> as a \<open>BaseTool\<close> of a registry. How Python binds the
  keyword arguments of a call to the parameters of \<open>execute\<close> is the parameter \<open>bind\<close>;
  \<open>schema\<close> is the dictionary \<open>parameters\<close>. The registry sees the result or the fault;
  the tool's state after the call is the second component of \<open>PlanningTool_execute\<close>.
\<close>

definition PlanningTool ::
  "(nat \<Rightarrow> nat \<Rightarrow> pystr) \<Rightarrow> ((pystr \<times> 'v) list \<Rightarrow> planning_args) \<Rightarrow> 'p \<Rightarrow> planning_tool
     \<Rightarrow> ('v, tool_result, 'p) base_tool" where
  "PlanningTool pct bind schema t =
     \<lparr>name = ascii ''planning'',
      description = [10]
        @ ascii ''A planning tool that allows the agent to create and manage plans for solving complex tasks.''
        @ [10]
        @ ascii ''The tool provides functionality for creating plans, updating plan steps, and tracking progress.''
        @ [10],
      parameters = Some schema,
      execute = (\<lambda>kwargs. fst (PlanningTool_execute pct t (bind kwargs)))\<rparr>"

section \<open>The terminate tool (app/tool/terminate.py)\<close>

text \<open>The dictionary \<open>parameters\<close> of a tool is a JSON schema: texts, lists and dictionaries.\<close>

datatype json = JString pystr | JArray "json list" | JObject "(pystr \<times> json) list"

text \<open>
  \<open>Terminate\<close>, called with keyword arguments whose values are texts. \<open>execute(self, status)\<close>
  has the one parameter \<open>status\<close>: Python raises \<open>TypeError\<close> for the first keyword that is
  not \<open>status\<close>, and for a call without \<open>status\<close>, before the body runs; the texts are
  those of Python 3.11. The body formats the status into its message.
\<close>

definition Terminate :: "(pystr, pystr, json) base_tool" where
  "Terminate =
     \<lparr>name = ascii ''terminate'',
      description =
        [0x7EC8, 0x6B62, 0x4EA4, 0x4E92, 0x5DE5, 0x5177, 0x63CF, 0x8FF0, 0xFF1A, 10,
         0x5F53, 0x4EFB, 0x52A1, 0x5B8C, 0x6210, 0x6216, 0x52A9, 0x624B, 0x65E0, 0x6CD5, 0x7EE7, 0x7EED,
         0x5904, 0x7406, 0x65F6, 0x8C03, 0x7528, 0x6B64, 0x5DE5, 0x5177, 0x7ED3, 0x675F, 0x4EA4, 0x4E92,
         0x3002, 10,
         0x5F53, 0x6240, 0x6709, 0x4EFB, 0x52A1, 0x5B8C, 0x6210, 0x540E, 0xFF0C, 0x8C03, 0x7528, 0x8BE5,
         0x5DE5, 0x5177, 0x7EC8, 0x6B62, 0x5DE5, 0x4F5C, 0x6D41, 0x7A0B, 0x3002],
      parameters = Some (JObject
        [(ascii ''type'', JString (ascii ''object'')),
         (ascii ''properties'', JObject
            [(ascii ''status'', JObject
               [(ascii ''type'', JString (ascii ''string'')),
                (ascii ''description'', JString
                   ([0x4EA4, 0x4E92, 0x5B8C, 0x6210, 0x72B6, 0x6001, 0x6807, 0x8BC6, 0xFF0C, 0x6709, 0x6548,
                     0x503C, 0x4E3A, 39] @ ascii ''success'' @ [39, 0x6216, 39] @ ascii ''failure'' @ [39])),
                (ascii ''enum'', JArray [JString (ascii ''success''), JString (ascii ''failure'')])])]),
         (ascii ''required'', JArray [JString (ascii ''status'')])]),
      execute = (\<lambda>kwargs.
        case find (\<lambda>kv. fst kv \<noteq> ascii ''status'') kwargs of
          Some kv \<Rightarrow>
            Inl (TypeError (ascii ''Terminate.execute() got an unexpected keyword argument ''
                            @ [39] @ fst kv @ [39]))
        | None \<Rightarrow>
            (case map_of kwargs (ascii ''status'') of
               None \<Rightarrow>
                 Inl (TypeError (ascii ''Terminate.execute() missing 1 required positional argument: ''
                                 @ [39] @ ascii ''status'' @ [39]))
             | Some status \<Rightarrow>
                 Inr ([0x4EA4, 0x4E92, 0x5DF2, 0x5B8C, 0x6210, 0xFF0C, 0x72B6, 0x6001, 0xFF1A] @ status)))\<rparr>"

section \<open>Messages and memory\<close>

text \<open>
  Modelled from the spec: the module \<open>app.schema\<close> (\<open>AgentState\<close>, \<open>Message\<close>, \<open>Memory\<close>,
  \<open>ToolCall\<close>, \<open>ToolChoice\<close>) is not among the sources. A message has a role, an
  optional content, optional tool calls and, for a tool message, the call's id and the
  tool's name; the memory is the ordered sequence of the messages, appended to and never
  pruned; a tool call has an id and a function, which has a name and the raw arguments.
  The code reads them as \<open>call.function.name\<close> and \<open>call.function.arguments\<close>, and
  \<open>execute_tool\<close> provides for a call whose \<open>function\<close> is missing, so the function is
  optional here.
\<close>

datatype agent_state = IDLE | RUNNING | FINISHED | ERROR

datatype role = User | System | Assistant | Tool

datatype tool_choice = NONE | AUTO | REQUIRED

record function_call =
  call_name :: pystr
  call_arguments :: pystr

record tool_call =
  call_id :: pystr
  call_function :: "function_call option"

record message =
  role :: role
  content :: "pystr option"
  tool_calls :: "tool_call list option"
  tool_name :: "pystr option"
  tool_call_id :: "pystr option"

definition user_message :: "pystr \<Rightarrow> message" where
  "user_message c = \<lparr>role = User, content = Some c, tool_calls = None, tool_name = None,
     tool_call_id = None\<rparr>"

definition system_message :: "pystr \<Rightarrow> message" where
  "system_message c = \<lparr>role = System, content = Some c, tool_calls = None, tool_name = None,
     tool_call_id = None\<rparr>"

definition assistant_message :: "pystr option \<Rightarrow> message" where
  "assistant_message c = \<lparr>role = Assistant, content = c, tool_calls = None, tool_name = None,
     tool_call_id = None\<rparr>"

section \<open>The agent core (app/agent/base.py)\<close>

text \<open>
  The fields of \<open>BaseAgent\<close> that its methods read or write. \<open>memory\<close> is the message
  list of the agent's \<open>Memory\<close>. The name, the description and the model client are
  used for logging and by subclasses only.
\<close>

record agent =
  system_prompt :: "pystr option"
  next_step_prompt :: "pystr option"
  memory :: "message list"
  state :: agent_state
  max_steps :: int
  current_step :: int
  duplicate_threshold :: int

text \<open>\<open>is_stuck\<close>.\<close>

definition is_stuck :: "'a agent_scheme \<Rightarrow> bool" where
  "is_stuck ag =
     (if length (memory ag) < 2 then False
      else let last_message = last (memory ag) in
        if \<not> truthy (content last_message) then False
        else let duplicate_count =
                   (\<Sum>msg \<leftarrow> filter (\<lambda>msg. role msg = Assistant \<and> content msg = content last_message)
                                (rev (butlast (memory ag))). (1::int))
             in duplicate_count \<ge> duplicate_threshold ag)"

text \<open>\<open>handle_stuck_state\<close>: the directive (eight blanks, then the sentence) goes before
  the next-step prompt; an absent prompt is formatted as \<open>None\<close>.\<close>

definition stuck_prompt :: pystr where
  "stuck_prompt = ascii ''        '' @ [0x89C2, 0x5BDF, 0x5230, 0x91CD, 0x590D, 0x54CD, 0x5E94,
     0x3002, 0x8003, 0x8651, 0x65B0, 0x7684, 0x7B56, 0x7565, 0xFF0C, 0x907F, 0x514D, 0x91CD, 0x590D,
     0x5DF2, 0x7ECF, 0x5C1D, 0x8BD5, 0x8FC7, 0x7684, 0x65E0, 0x6548, 0x8DEF, 0x5F84, 0x3002]"

definition handle_stuck_state :: "'a agent_scheme \<Rightarrow> 'a agent_scheme" where
  "handle_stuck_state ag =
     ag\<lparr>next_step_prompt :=
          Some (stuck_prompt @ [10]
                @ (case next_step_prompt ag of None \<Rightarrow> ascii ''None'' | Some s \<Rightarrow> s))\<rparr>"

text \<open>
  The count the specification gives for \<open>is_stuck\<close>: the messages before the last one
  that have the role assistant and the content of the last message.
\<close>

definition prior_duplicates :: "message list \<Rightarrow> nat" where
  "prior_duplicates msgs =
     length (filter (\<lambda>m. role m = Assistant \<and> content m = content (last msgs)) (butlast msgs))"

text \<open>
  \<open>state_context\<close>: the state is set, the body runs, and on the way out the previous
  state is put back; when the body raised, \<open>ERROR\<close> is set first and the fault goes on.
  A body that does not return is \<open>None\<close>.
\<close>

definition state_context ::
  "agent_state \<Rightarrow> ('a agent_scheme \<Rightarrow> ((fault + 'r) \<times> 'a agent_scheme) option)
     \<Rightarrow> 'a agent_scheme \<Rightarrow> ((fault + 'r) \<times> 'a agent_scheme) option" where
  "state_context new_state body ag =
     (let previous_state = state ag in
      case body (ag\<lparr>state := new_state\<rparr>) of
        None \<Rightarrow> None
      | Some (Inl e, ag') \<Rightarrow> Some (Inl e, (ag'\<lparr>state := ERROR\<rparr>)\<lparr>state := previous_state\<rparr>)
      | Some (Inr r, ag') \<Rightarrow> Some (Inr r, ag'\<lparr>state := previous_state\<rparr>))"

text \<open>The line \<open>run\<close> records for a step, and its notice when the steps are used up.\<close>

definition step_line :: "int \<Rightarrow> pystr \<Rightarrow> pystr" where
  "step_line k step_result = [0x6B65, 0x9AA4] @ ascii '' '' @ str_int k @ ascii '': '' @ step_result"

definition termination_notice :: "int \<Rightarrow> pystr" where
  "termination_notice k = [0x7EC8, 0x6B62] @ ascii '': ''
     @ [0x8FBE, 0x5230, 0x6700, 0x5927, 0x6B65, 0x9AA4, 0x6570] @ ascii '' ('' @ str_int k @ ascii '')''"

text \<open>
  The abstract \<open>step\<close> is a parameter: applied to the agent it returns a text or raises,
  and leaves the agent as it made it. The \<open>while\<close> loop of \<open>run\<close> may not end for such a
  step, so it is a partial function. Beside the source's \<open>results\<close> it carries the number
  \<open>n\<close> of calls of \<open>step\<close> made so far, which the source does not keep; it is returned
  with the outcome: the results, or the fault \<open>step\<close> raised.
\<close>

type_synonym 'a step_fn = "'a agent_scheme \<Rightarrow> (fault + pystr) \<times> 'a agent_scheme"

partial_function (option) run_loop ::
  "'a step_fn \<Rightarrow> 'a agent_scheme \<Rightarrow> pystr list \<Rightarrow> nat
     \<Rightarrow> ((fault + pystr list) \<times> 'a agent_scheme \<times> nat) option" where
  "run_loop step ag results n =
     (if current_step ag < max_steps ag \<and> state ag \<noteq> FINISHED then
        (case step (ag\<lparr>current_step := current_step ag + 1\<rparr>) of
           (Inl e, ag1) \<Rightarrow> Some (Inl e, ag1, Suc n)
         | (Inr step_result, ag1) \<Rightarrow>
             let ag2 = (if is_stuck ag1 then handle_stuck_state ag1 else ag1)
             in run_loop step ag2 (results @ [step_line (current_step ag2) step_result]) (Suc n))
      else Some (Inr results, ag, n))"

text \<open>The body of the \<open>async with\<close> block of \<open>run\<close>: the loop, then the reset when the
  step counter has reached \<open>max_steps\<close>.\<close>

definition run_body ::
  "'a step_fn \<Rightarrow> 'a agent_scheme \<Rightarrow> ((fault + pystr list) \<times> 'a agent_scheme) option" where
  "run_body step ag =
     (case run_loop step ag [] 0 of
        None \<Rightarrow> None
      | Some (Inl e, ag', n) \<Rightarrow> Some (Inl e, ag')
      | Some (Inr results, ag', n) \<Rightarrow>
          if current_step ag' \<ge> max_steps ag' then
            Some (Inr (results @ [termination_notice (max_steps ag')]),
                  ag'\<lparr>current_step := 0, state := IDLE\<rparr>)
          else Some (Inr results, ag'))"

text \<open>The start of \<open>run\<close>: a request that is given is appended as a user message.\<close>

definition with_request :: "'a agent_scheme \<Rightarrow> pystr option \<Rightarrow> 'a agent_scheme" where
  "with_request ag request =
     (if truthy request then ag\<lparr>memory := memory ag @ [user_message (text_of request)]\<rparr> else ag)"

text \<open>
  \<open>run\<close>: the outcome (the joined trace, or the fault raised) and the agent afterwards.
  How a state prints inside the message of the \<open>RuntimeError\<close> is decided by the
  enumeration of the missing \<open>app.schema\<close>; it is the parameter \<open>str_state\<close>.
\<close>

definition run ::
  "(agent_state \<Rightarrow> pystr) \<Rightarrow> 'a step_fn \<Rightarrow> 'a agent_scheme \<Rightarrow> pystr option
     \<Rightarrow> ((fault + pystr) \<times> 'a agent_scheme) option" where
  "run str_state step ag request =
     (if state ag \<noteq> IDLE then
        Some (Inl (RuntimeError ([0x65E0, 0x6CD5, 0x4ECE, 0x72B6, 0x6001, 0x8FD0, 0x884C, 0x4EE3,
                     0x7406] @ ascii '': '' @ str_state (state ag))), ag)
      else
        case state_context RUNNING (run_body step) (with_request ag request) of
             None \<Rightarrow> None
           | Some (Inl e, ag') \<Rightarrow> Some (Inl e, ag')
           | Some (Inr results, ag') \<Rightarrow>
               Some (Inr (if results \<noteq> [] then join [10] results
                          else [0x672A, 0x6267, 0x884C, 0x4EFB, 0x4F55, 0x6B65, 0x9AA4]), ag'))"

text \<open>
  The steps of the agents of this repository (think, then act) write the memory, the
  prompts and the state, and leave the two counters of the loop alone.
\<close>

definition keeps_counters :: "'a step_fn \<Rightarrow> bool" where
  "keeps_counters step =
     (\<forall>ag. current_step (snd (step ag)) = current_step ag
          \<and> max_steps (snd (step ag)) = max_steps ag)"

section \<open>The tool-calling agent (app/agent/toolcall.py)\<close>

text \<open>The fields \<open>ToolCallAgent\<close> adds that \<open>think\<close> reads or writes.\<close>

record toolcall_agent = agent +
  tool_choices :: tool_choice
  agent_tool_calls :: "tool_call list option"

text \<open>
  The reply of the model client: a content and tool calls, either of them optional. The
  client may also return no reply at all (Python's \<open>None\<close>), which is \<open>None\<close> of
  \<open>response option\<close> below.
\<close>

record response =
  response_content :: "pystr option"
  response_tool_calls :: "tool_call list option"

text \<open>
  The names \<open>think\<close> collects for its log once the reply is in, before the \<open>try\<close> block:
  \<open>[call.function.name for call in response.tool_calls]\<close>, evaluated when the reply has
  tool calls. Reading \<open>name\<close> of a missing function raises \<open>AttributeError\<close>.
\<close>

fun called_names :: "tool_call list \<Rightarrow> fault + pystr list" where
  "called_names [] = Inr []"
| "called_names (call # calls) =
     (case call_function call of
        None \<Rightarrow> Inl (AttributeError ([39] @ ascii ''NoneType'' @ [39] @ ascii '' object has no attribute ''
                                   @ [39] @ ascii ''name'' @ [39]))
      | Some f \<Rightarrow> (case called_names calls of
                    Inl e \<Rightarrow> Inl e
                  | Inr names \<Rightarrow> Inr (call_name f # names)))"

definition tools_being_prepared :: "response \<Rightarrow> fault + pystr list" where
  "tools_being_prepared resp =
     (if list_of (response_tool_calls resp) \<noteq> []
      then called_names (list_of (response_tool_calls resp)) else Inr [])"

text \<open>
  The \<open>try\<close> block of \<open>think\<close>. \<open>Message.from_tool_calls\<close> belongs to the missing
  \<open>app.schema\<close> and is the parameter \<open>from_tool_calls\<close>; it may raise.
\<close>

definition think_try ::
  "(pystr option \<Rightarrow> tool_call list \<Rightarrow> fault + message) \<Rightarrow> 'a toolcall_agent_scheme \<Rightarrow> response
     \<Rightarrow> (fault + bool) \<times> 'a toolcall_agent_scheme" where
  "think_try from_tool_calls ag resp =
     (if tool_choices ag = NONE then
        (if truthy (response_content resp) then
           (Inr True, ag\<lparr>memory := memory ag @ [assistant_message (response_content resp)]\<rparr>)
         else (Inr False, ag))
      else
        (case (if list_of (agent_tool_calls ag) \<noteq> []
               then from_tool_calls (response_content resp) (list_of (agent_tool_calls ag))
               else Inr (assistant_message (response_content resp))) of
           Inl e \<Rightarrow> (Inl e, ag)
         | Inr assistant_msg \<Rightarrow>
             let ag1 = ag\<lparr>memory := memory ag @ [assistant_msg]\<rparr> in
             if tool_choices ag1 = REQUIRED \<and> list_of (agent_tool_calls ag1) = [] then (Inr True, ag1)
             else if tool_choices ag1 = AUTO \<and> list_of (agent_tool_calls ag1) = [] then
               (Inr (truthy (response_content resp)), ag1)
             else (Inr (list_of (agent_tool_calls ag1) \<noteq> []), ag1)))"

text \<open>The start of \<open>think\<close>: a next-step prompt that is not empty is appended as a user
  message; the system messages for the model client are built from the system prompt.\<close>

definition with_next_step_prompt :: "'a agent_scheme \<Rightarrow> 'a agent_scheme" where
  "with_next_step_prompt ag =
     (if truthy (next_step_prompt ag)
      then ag\<lparr>memory := memory ag @ [user_message (text_of (next_step_prompt ag))]\<rparr> else ag)"

definition system_msgs :: "'a agent_scheme \<Rightarrow> message list option" where
  "system_msgs ag =
     (if truthy (system_prompt ag) then Some [system_message (text_of (system_prompt ag))] else None)"

text \<open>
  \<open>think\<close>. The model client is the parameter \<open>ask_tool\<close>, applied to the messages, the
  system messages and the tool-choice mode (the tool schemas it is also given are those
  of the agent's registry); it returns a reply, or no reply, or raises. The call stands
  before the \<open>try\<close> block, and so do the statements that follow it: the assignment
  \<open>self.tool_calls = response.tool_calls\<close>, which raises \<open>AttributeError\<close> when there is
  no reply, and the three log lines, the last of which collects the names of the calls.
\<close>

definition think ::
  "(message list \<Rightarrow> message list option \<Rightarrow> tool_choice \<Rightarrow> fault + response option)
     \<Rightarrow> (pystr option \<Rightarrow> tool_call list \<Rightarrow> fault + message) \<Rightarrow> 'a toolcall_agent_scheme
     \<Rightarrow> (fault + bool) \<times> 'a toolcall_agent_scheme" where
  "think ask_tool from_tool_calls ag =
     (let ag1 = with_next_step_prompt ag in
      case ask_tool (memory ag1) (system_msgs ag1) (tool_choices ag1) of
        Inl e \<Rightarrow> (Inl e, ag1)
      | Inr None \<Rightarrow>
          (Inl (AttributeError ([39] @ ascii ''NoneType'' @ [39] @ ascii '' object has no attribute ''
                                @ [39] @ ascii ''tool_calls'' @ [39])), ag1)
      | Inr (Some resp) \<Rightarrow>
          let ag2 = ag1\<lparr>agent_tool_calls := response_tool_calls resp\<rparr> in
          (case tools_being_prepared resp of
             Inl e \<Rightarrow> (Inl e, ag2)
           | Inr names \<Rightarrow>
               (case think_try from_tool_calls ag2 resp of
                  (Inl e, ag3) \<Rightarrow>
                    (Inr False,
                     ag3\<lparr>memory := memory ag3
                          @ [assistant_message
                               (Some (ascii ''Error encountered while processing: '' @ str_fault e))]\<rparr>)
                | (Inr b, ag3) \<Rightarrow> (Inr b, ag3))))"

section \<open>The planning agent's reading of a rendered plan (app/agent/planning.py)\<close>

text \<open>
  The parsing in \<open>PlanningAgent._get_current_step_index\<close>, applied to the text that the
  planning tool's \<open>get\<close> returned: the index of the first line that strips to \<open>Steps:\<close>,
  then the offset, among the lines after it, of the first line that contains \<open>[ ]\<close> or
  the in-progress marker (an arrow, U+2192, in brackets); \<open>None\<close> when either is missing.
  The method then marks the step it found as in progress.
\<close>

definition parse_current_step :: "pystr \<Rightarrow> nat option" where
  "parse_current_step plan =
     (let plan_lines = py_splitlines plan in
      case first_index (\<lambda>line. strip line = ascii ''Steps:'') plan_lines of
        None \<Rightarrow> None
      | Some steps_index \<Rightarrow>
          first_index (\<lambda>line. contains (ascii ''[ ]'') line \<or> contains (ascii ''['' @ [0x2192] @ ascii '']'') line)
            (drop (steps_index + 1) plan_lines))"

section \<open>Example inputs\<close>

text \<open>A tool holding one plan with three steps, none of them started.\<close>

definition plan_abc :: plan where
  "plan_abc = \<lparr>plan_id = ascii ''p1'', title = ascii ''T'',
      steps = [ascii ''a'', ascii ''b'', ascii ''c''],
      step_statuses = [not_started, not_started, not_started],
      step_notes = [[], [], []]\<rparr>"

definition tool_abc :: planning_tool where
  "tool_abc = \<lparr>plans = [(ascii ''p1'', plan_abc)], current_plan_id = Some (ascii ''p1'')\<rparr>"

text \<open>A \<open>mark_step\<close> command for the active plan.\<close>

definition mark_args :: "int \<Rightarrow> pystr \<Rightarrow> planning_args" where
  "mark_args i status = \<lparr>command = ascii ''mark_step'', arg_plan_id = None, arg_title = None,
      arg_steps = None, arg_step_index = Some i, arg_step_status = Some status,
      arg_step_notes = None\<rparr>"

text \<open>An idle agent with a budget of three steps, the names of the states as their
  rendering, and three steps: one that does nothing, one that finishes, one that raises.\<close>

definition agent0 :: agent where
  "agent0 = \<lparr>system_prompt = None, next_step_prompt = None, memory = [], state = IDLE,
     max_steps = 3, current_step = 0, duplicate_threshold = 2\<rparr>"

definition state_name :: "agent_state \<Rightarrow> pystr" where
  "state_name s = (case s of IDLE \<Rightarrow> ascii ''IDLE'' | RUNNING \<Rightarrow> ascii ''RUNNING''
     | FINISHED \<Rightarrow> ascii ''FINISHED'' | ERROR \<Rightarrow> ascii ''ERROR'')"

definition step_ok :: "unit step_fn" where
  "step_ok ag = (Inr (ascii ''ok''), ag)"

definition step_finish :: "unit step_fn" where
  "step_finish ag = (Inr (ascii ''done''), ag\<lparr>state := FINISHED\<rparr>)"

definition step_raise :: "unit step_fn" where
  "step_raise ag = (Inl (ValueError (ascii ''boom'')), ag)"

text \<open>A tool that rejects every call with \<open>ToolError\<close>.\<close>

definition Refusing :: "(pystr, pystr, json) base_tool" where
  "Refusing = \<lparr>name = ascii ''refusing'', description = [], parameters = None,
      execute = (\<lambda>kwargs. Inl (ToolError (ascii ''no'')))\<rparr>"

text \<open>A memory of three assistant messages with the same content.\<close>

definition agent_repeating :: agent where
  "agent_repeating = agent0\<lparr>memory := [assistant_message (Some (ascii ''x'')),
      assistant_message (Some (ascii ''x'')), assistant_message (Some (ascii ''x''))]\<rparr>"

text \<open>
  Scenario D: a tool without plans, the command that creates the plan of \<open>tool_abc\<close>, the
  renderings Python gives for the percentages of this scenario (0/3 and 1/3), and the
  text \<open>_format_plan\<close> yields once step 1 is completed.
\<close>

definition pct_thirds :: "nat \<Rightarrow> nat \<Rightarrow> pystr" where
  "pct_thirds d n = (if d = 0 then ascii ''0.0'' else ascii ''33.3'')"

definition empty_tool :: planning_tool where
  "empty_tool = \<lparr>plans = [], current_plan_id = None\<rparr>"

definition create_abc :: planning_args where
  "create_abc = \<lparr>command = ascii ''create'', arg_plan_id = Some (ascii ''p1''),
      arg_title = Some (ascii ''T''),
      arg_steps = Some [ascii ''a'', ascii ''b'', ascii ''c''], arg_step_index = None,
      arg_step_status = None, arg_step_notes = None\<rparr>"

definition rendering_abc :: pystr where
  "rendering_abc =
     [0x8BA1, 0x5212, 0xFF1A] @ ascii ''T (ID'' @ [0xFF1A] @ ascii ''p1)'' @ [10]
     @ ascii ''============='' @ [10, 10]
     @ [0x8FDB, 0x5EA6, 0xFF1A] @ ascii ''1/3 (33.3%)'' @ [10]
     @ [0x72B6, 0x6001, 0xFF1A, 0x5B8C, 0x6210] @ ascii ''1'' @ [0x4E2A, 0xFF0C, 0x8FDB, 0x884C, 0x4E2D]
     @ ascii ''0'' @ [0x4E2A, 0xFF0C, 0x963B, 0x585E] @ ascii ''0''
     @ [0x4E2A, 0xFF0C, 0x672A, 0x5F00, 0x59CB] @ ascii ''2'' @ [0x4E2A] @ [10, 10]
     @ [0x6B65, 0x9AA4, 0x8BE6, 0x60C5, 0xFF1A] @ [10]
     @ ascii ''0. '' @ [0x25A1] @ ascii '' a'' @ [10]
     @ ascii ''1. '' @ [0x2713] @ ascii '' b'' @ [10]
     @ ascii ''2. '' @ [0x25A1] @ ascii '' c'' @ [10]"

text \<open>An update of the plan of \<open>tool_abc\<close> that keeps the first step and replaces the rest.\<close>

definition update_abc :: planning_args where
  "update_abc = \<lparr>command = ascii ''update'', arg_plan_id = Some (ascii ''p1''),
      arg_title = None, arg_steps = Some [ascii ''a'', ascii ''x''], arg_step_index = None,
      arg_step_status = None, arg_step_notes = None\<rparr>"

text \<open>A tool-calling agent in mode \<open>AUTO\<close> with a next-step prompt, a reply with one tool
  call and one whose call has no function, model clients that return the one or the
  other, that return no reply and that raise, and a message constructor that raises.\<close>

definition toolcall_agent0 :: toolcall_agent where
  "toolcall_agent0 = \<lparr>system_prompt = None, next_step_prompt = Some (ascii ''next''),
     memory = [], state = IDLE, max_steps = 30, current_step = 0, duplicate_threshold = 2,
     tool_choices = AUTO, agent_tool_calls = None\<rparr>"

definition reply_call :: response where
  "reply_call = \<lparr>response_content = Some (ascii ''hi''),
     response_tool_calls = Some [\<lparr>call_id = ascii ''1'',
        call_function = Some \<lparr>call_name = ascii ''terminate'', call_arguments = ascii ''{}''\<rparr>\<rparr>]\<rparr>"

definition reply_no_function :: response where
  "reply_no_function = \<lparr>response_content = Some (ascii ''hi''),
     response_tool_calls = Some [\<lparr>call_id = ascii ''1'', call_function = None\<rparr>]\<rparr>"

definition ask_replies ::
  "message list \<Rightarrow> message list option \<Rightarrow> tool_choice \<Rightarrow> fault + response option" where
  "ask_replies msgs sys_msgs choice = Inr (Some reply_call)"

definition ask_replies_no_function ::
  "message list \<Rightarrow> message list option \<Rightarrow> tool_choice \<Rightarrow> fault + response option" where
  "ask_replies_no_function msgs sys_msgs choice = Inr (Some reply_no_function)"

definition ask_returns_none ::
  "message list \<Rightarrow> message list option \<Rightarrow> tool_choice \<Rightarrow> fault + response option" where
  "ask_returns_none msgs sys_msgs choice = Inr None"

definition ask_raises ::
  "message list \<Rightarrow> message list option \<Rightarrow> tool_choice \<Rightarrow> fault + response option" where
  "ask_raises msgs sys_msgs choice = Inl (OtherException (ascii ''connection lost''))"

definition from_tool_calls_raises :: "pystr option \<Rightarrow> tool_call list \<Rightarrow> fault + message" where
  "from_tool_calls_raises c calls = Inl (ValueError (ascii ''bad call''))"

definition from_tool_calls_ok :: "pystr option \<Rightarrow> tool_call list \<Rightarrow> fault + message" where
  "from_tool_calls_ok c calls = Inr \<lparr>role = Assistant, content = c, tool_calls = Some calls,
     tool_name = None, tool_call_id = None\<rparr>"

section \<open>Properties of texts\<close>

lemma ascii_eq_iff [simp]: "ascii a = ascii b \<longleftrightarrow> a = b"
  unfolding ascii_def by (simp add: inj_def)

lemma ascii_Nil [simp]: "ascii [] = []"
  by (simp add: ascii_def)

lemma ascii_Cons [simp]: "ascii (c # cs) = of_char c # ascii cs"
  by (simp add: ascii_def)

section \<open>Properties of the planning tool\<close>

text \<open>
  C6. A \<open>mark_step\<close> command on an existing plan whose \<open>step_index\<close> lies outside
  \<open>[0, len(steps))\<close> is rejected: the tool raises \<open>ToolError\<close> with the out-of-range
  message, which the registry turns into a \<open>ToolFailure\<close> carrying that message, and
  the tool is left as it was, so the plan still has the same steps, statuses and notes.
\<close>

theorem mark_step_rejects_bad_index:
  assumes "truthy (or_current pid t)"
    and "map_of (plans t) (text_of (or_current pid t)) = Some p"
    and "i < 0 \<or> int (length (steps p)) \<le> i"
    and "command a = ascii ''mark_step''"
    and "arg_plan_id a = pid"
    and "arg_step_index a = Some i"
    and "tool_map c nm = Some (PlanningTool pct bind schema t)"
    and "bind (list_of inp) = a"
  shows "PlanningTool_execute pct t a =
           (Inl (ToolError ([0x6B65, 0x9AA4, 0x7D22, 0x5F15] @ str_int i
                   @ [0x8D85, 0x51FA, 0x8303, 0x56F4])), t)
       \<and> ToolCollection_execute c nm inp =
           Inr (ToolFailure (failure ([0x6B65, 0x9AA4, 0x7D22, 0x5F15] @ str_int i
                   @ [0x8D85, 0x51FA, 0x8303, 0x56F4])))
       \<and> map_of (plans (snd (PlanningTool_execute pct t a))) (text_of (or_current pid t)) = Some p"
proof -
  have m: "mark_step pct t pid (Some i) (arg_step_status a) (arg_step_notes a) =
             (Inl (ToolError ([0x6B65, 0x9AA4, 0x7D22, 0x5F15] @ str_int i
                     @ [0x8D85, 0x51FA, 0x8303, 0x56F4])), t)"
    using assms(1-3) by (auto simp: mark_step_def Let_def)
  have e: "PlanningTool_execute pct t a =
             mark_step pct t pid (Some i) (arg_step_status a) (arg_step_notes a)"
    using assms(4-6) by (simp add: PlanningTool_execute_def)
  show ?thesis
    using m e assms(2,7,8) by (simp add: ToolCollection_execute_def PlanningTool_def)
qed

theorem mark_step_rejects_bad_index_witness:
  "PlanningTool_execute (\<lambda>done total. []) tool_abc (mark_args 3 completed) =
     (Inl (ToolError ([0x6B65, 0x9AA4, 0x7D22, 0x5F15] @ ascii ''3''
             @ [0x8D85, 0x51FA, 0x8303, 0x56F4])), tool_abc)
   \<and> ToolCollection_execute
       (ToolCollection [PlanningTool (\<lambda>done total. []) (\<lambda>kwargs. mark_args 3 completed) () tool_abc])
       (ascii ''planning'') (None :: (pystr \<times> unit) list option) =
     Inr (ToolFailure (failure ([0x6B65, 0x9AA4, 0x7D22, 0x5F15] @ ascii ''3''
             @ [0x8D85, 0x51FA, 0x8303, 0x56F4])))
   \<and> map_of (plans (snd (PlanningTool_execute (\<lambda>done total. []) tool_abc (mark_args 3 completed))))
       (ascii ''p1'') = Some plan_abc"
proof -
  have s: "str_int 3 = ascii ''3''"
    by (simp add: str_int_def str_nat.simps)
  have c: "or_current None tool_abc = Some (ascii ''p1'')"
    by (simp add: or_current_def tool_abc_def)
  have h1: "truthy (or_current None tool_abc)"
    by (simp add: c)
  have h2: "map_of (plans tool_abc) (text_of (or_current None tool_abc)) = Some plan_abc"
    by (simp add: c) (simp add: tool_abc_def)
  have h3: "(3::int) < 0 \<or> int (length (steps plan_abc)) \<le> 3"
    by (simp add: plan_abc_def)
  have h7: "tool_map (ToolCollection [PlanningTool (\<lambda>done total. []) (\<lambda>kwargs. mark_args 3 completed) () tool_abc])
      (ascii ''planning'') = Some (PlanningTool (\<lambda>done total. []) (\<lambda>kwargs. mark_args 3 completed) () tool_abc)"
    by (simp add: ToolCollection_def) (simp add: PlanningTool_def)
  show ?thesis
    using mark_step_rejects_bad_index [OF h1 h2 h3 _ _ _ h7, of "mark_args 3 completed" None]
    unfolding s c by (simp add: mark_args_def)
qed

lemma carry_over_lengths:
  "carry_over old_steps old_statuses old_notes i xs = Inr (ss, ns)
     \<Longrightarrow> length ss = length xs \<and> length ns = length xs"
proof (induction xs arbitrary: i ss ns)
  case Nil
  then show ?case by simp
next
  case (Cons x xs)
  then show ?case
    by (auto split: if_splits sum.splits prod.splits)
qed

lemma list_all_update:
  "list_all P al \<Longrightarrow> P (k, v) \<Longrightarrow> list_all P (AList.update k v al)"
  by (induction al) auto

lemma list_all_lookup:
  "list_all (\<lambda>(k, p). Q p) al \<Longrightarrow> map_of al k = Some p \<Longrightarrow> Q p"
  by (induction al) (auto split: if_splits)

lemma render_result_Inr:
  "render_result pct prefix p = Inr r \<Longrightarrow> steps p \<noteq> []"
  by (auto simp: render_result_def format_plan_def Let_def split: sum.splits if_splits)

lemma create_plan_parallel:
  assumes "create_plan pct t pid ttl stps = (Inr r, t')" and "all_parallel t"
  shows "all_parallel t' \<and> (\<exists>p. map_of (plans t') (text_of pid) = Some p \<and> parallel_arrays p)"
  using assms
  by (auto simp: create_plan_def Let_def all_parallel_def parallel_arrays_def update_conv'
           intro!: list_all_update split: if_splits)

lemma update_plan_parallel:
  assumes u: "update_plan pct t pid ttl stps = (Inr r, t')" and a: "all_parallel t"
  shows "all_parallel t' \<and> (\<exists>p. map_of (plans t') (text_of pid) = Some p \<and> parallel_arrays p)"
proof -
  from u obtain p0 where p0: "map_of (plans t) (text_of pid) = Some p0"
    by (auto simp: update_plan_def Let_def split: if_splits option.splits)
  have ok0: "parallel_arrays p0"
    using list_all_lookup[OF a[unfolded all_parallel_def] p0] .
  define p1 where "p1 = (if truthy ttl then p0\<lparr>title := text_of ttl\<rparr> else p0)"
  have ok1: "parallel_arrays p1"
    using ok0 by (simp add: p1_def parallel_arrays_def)
  show ?thesis
  proof (cases "stps = None \<or> stps = Some []")
    case True
    then have "t' = t\<lparr>plans := AList.update (text_of pid) p1 (plans t)\<rparr>"
      using u p0 by (auto simp: update_plan_def Let_def p1_def split: if_splits)
    then show ?thesis
      using a ok1 by (auto simp: all_parallel_def update_conv' intro!: list_all_update)
  next
    case False
    then obtain ss ns where
      c: "carry_over (steps p1) (step_statuses p1) (step_notes p1) 0 (list_of stps) = Inr (ss, ns)"
      and t': "t' = t\<lparr>plans := AList.update (text_of pid)
                        (p1\<lparr>steps := list_of stps, step_statuses := ss, step_notes := ns\<rparr>)
                        (AList.update (text_of pid) p1 (plans t))\<rparr>"
      using u p0 by (auto simp: update_plan_def Let_def p1_def split: if_splits sum.splits)
    have ok2: "parallel_arrays (p1\<lparr>steps := list_of stps, step_statuses := ss, step_notes := ns\<rparr>)"
      using carry_over_lengths[OF c] by (simp add: parallel_arrays_def)
    show ?thesis
      unfolding t' using a ok1 ok2
      by (auto simp: all_parallel_def update_conv' intro!: list_all_update)
  qed
qed

text \<open>
  C7. After a successful \<open>create\<close> or \<open>update\<close> command on a tool whose stored plans all
  have steps, statuses and notes of the same length, every stored plan still has them of
  the same length, and the plan stored under the command's id is one of them.
\<close>

theorem create_update_keep_parallel_arrays:
  assumes "command a = ascii ''create'' \<or> command a = ascii ''update''"
    and "PlanningTool_execute pct t a = (Inr r, t')"
    and "all_parallel t"
  shows "all_parallel t'
       \<and> (\<exists>p. map_of (plans t') (text_of (arg_plan_id a)) = Some p \<and> parallel_arrays p)"
  using assms create_plan_parallel update_plan_parallel
  by (auto simp: PlanningTool_execute_def split: if_splits)

lemma str_nat_digit: "n < 10 \<Longrightarrow> str_nat n = [48 + n]"
  by (simp add: str_nat.simps)

lemma create_abc_result:
  "PlanningTool_execute pct_thirds empty_tool create_abc =
     (render_result pct_thirds
        ([0x8BA1, 0x5212, 0x521B, 0x5EFA, 0x6210, 0x529F, 0xFF1A] @ ascii ''p1'' @ [10, 10]) plan_abc,
      tool_abc)"
  by (simp add: PlanningTool_execute_def create_abc_def create_plan_def empty_tool_def tool_abc_def
      plan_abc_def Let_def)

lemma render_result_steps:
  "steps p \<noteq> [] \<Longrightarrow> \<exists>r. render_result pct prefix p = Inr r"
  by (simp add: render_result_def format_plan_def Let_def)

lemma update_abc_result:
  "\<exists>r. PlanningTool_execute pct_thirds tool_abc update_abc =
     (Inr r, tool_abc\<lparr>plans := [(ascii ''p1'',
        plan_abc\<lparr>steps := [ascii ''a'', ascii ''x''], step_statuses := [not_started, not_started],
                  step_notes := [[], []]\<rparr>)]\<rparr>)"
proof -
  have "PlanningTool_execute pct_thirds tool_abc update_abc =
     (render_result pct_thirds
        ([0x8BA1, 0x5212, 0x66F4, 0x65B0, 0x6210, 0x529F, 0xFF1A] @ ascii ''p1'' @ [10, 10])
        (plan_abc\<lparr>steps := [ascii ''a'', ascii ''x''], step_statuses := [not_started, not_started],
                  step_notes := [[], []]\<rparr>),
      tool_abc\<lparr>plans := [(ascii ''p1'',
        plan_abc\<lparr>steps := [ascii ''a'', ascii ''x''], step_statuses := [not_started, not_started],
                  step_notes := [[], []]\<rparr>)]\<rparr>)"
    by (simp add: PlanningTool_execute_def update_abc_def update_plan_def tool_abc_def
      plan_abc_def Let_def)
  moreover have "\<exists>r. render_result pct_thirds
        ([0x8BA1, 0x5212, 0x66F4, 0x65B0, 0x6210, 0x529F, 0xFF1A] @ ascii ''p1'' @ [10, 10])
        (plan_abc\<lparr>steps := [ascii ''a'', ascii ''x''], step_statuses := [not_started, not_started],
                  step_notes := [[], []]\<rparr>) = Inr r"
    by (rule render_result_steps) simp
  ultimately show ?thesis by auto
qed

theorem create_update_keep_parallel_arrays_witness:
  "all_parallel empty_tool
   \<and> snd (PlanningTool_execute pct_thirds empty_tool create_abc) = tool_abc
   \<and> all_parallel tool_abc
   \<and> map_of (plans tool_abc) (ascii ''p1'') = Some plan_abc \<and> parallel_arrays plan_abc
   \<and> all_parallel (snd (PlanningTool_execute pct_thirds tool_abc update_abc))"
proof -
  have e: "all_parallel empty_tool"
    by (simp add: all_parallel_def empty_tool_def)
  obtain r where c: "PlanningTool_execute pct_thirds empty_tool create_abc = (Inr r, tool_abc)"
    using create_abc_result render_result_steps[of plan_abc pct_thirds] 
    by (auto simp: plan_abc_def)
  have c1: "command create_abc = ascii ''create'' \<or> command create_abc = ascii ''update''"
    by (simp add: create_abc_def)
  have a: "all_parallel tool_abc"
    using create_update_keep_parallel_arrays[OF c1 c e] by simp
  obtain r' t' where u: "PlanningTool_execute pct_thirds tool_abc update_abc = (Inr r', t')"
    using update_abc_result by blast
  have u1: "command update_abc = ascii ''create'' \<or> command update_abc = ascii ''update''"
    by (simp add: update_abc_def)
  have b: "all_parallel t'"
    using create_update_keep_parallel_arrays[OF u1 u a] by simp
  have p: "map_of (plans tool_abc) (ascii ''p1'') = Some plan_abc" "parallel_arrays plan_abc"
    by (simp_all add: tool_abc_def parallel_arrays_def plan_abc_def)
  show ?thesis
    using e c a b u p by simp
qed

lemma mark_abc:
  "PlanningTool_execute pct_thirds tool_abc (mark_args 1 completed) =
     (Inr (ToolResult_output ([0x6B65, 0x9AA4] @ ascii ''1'' @ [0x5DF2, 0x66F4, 0x65B0] @ [10, 10]
             @ rendering_abc)),
      tool_abc\<lparr>plans := [(ascii ''p1'',
         plan_abc\<lparr>step_statuses := [not_started, completed, not_started]\<rparr>)]\<rparr>)"
  by (simp add: PlanningTool_execute_def mark_args_def mark_step_def or_current_def tool_abc_def
      plan_abc_def Let_def valid_statuses_def render_result_def format_plan_def str_int_def
      str_nat_digit status_sym_def not_started_def completed_def in_progress_def blocked_def
      pct_thirds_def rendering_abc_def ToolResult_output_def)

lemma get_abc:
  "PlanningTool_execute pct_thirds
     (tool_abc\<lparr>plans := [(ascii ''p1'',
         plan_abc\<lparr>step_statuses := [not_started, completed, not_started]\<rparr>)]\<rparr>)
     \<lparr>command = ascii ''get'', arg_plan_id = None, arg_title = None, arg_steps = None,
      arg_step_index = None, arg_step_status = None, arg_step_notes = None\<rparr> =
     (Inr (ToolResult_output rendering_abc),
      tool_abc\<lparr>plans := [(ascii ''p1'',
         plan_abc\<lparr>step_statuses := [not_started, completed, not_started]\<rparr>)]\<rparr>)"
  by (simp add: PlanningTool_execute_def get_plan_def or_current_def tool_abc_def
      plan_abc_def Let_def render_result_def format_plan_def
      str_nat_digit status_sym_def not_started_def completed_def in_progress_def blocked_def
      pct_thirds_def rendering_abc_def ToolResult_output_def)

lemma lines_abc:
  "py_splitlines rendering_abc =
     [[0x8BA1, 0x5212, 0xFF1A] @ ascii ''T (ID'' @ [0xFF1A] @ ascii ''p1)'',
      ascii ''============='',
      [],
      [0x8FDB, 0x5EA6, 0xFF1A] @ ascii ''1/3 (33.3%)'',
      [0x72B6, 0x6001, 0xFF1A, 0x5B8C, 0x6210] @ ascii ''1'' @ [0x4E2A, 0xFF0C, 0x8FDB, 0x884C, 0x4E2D]
        @ ascii ''0'' @ [0x4E2A, 0xFF0C, 0x963B, 0x585E] @ ascii ''0''
        @ [0x4E2A, 0xFF0C, 0x672A, 0x5F00, 0x59CB] @ ascii ''2'' @ [0x4E2A],
      [],
      [0x6B65, 0x9AA4, 0x8BE6, 0x60C5, 0xFF1A],
      ascii ''0. '' @ [0x25A1] @ ascii '' a'',
      ascii ''1. '' @ [0x2713] @ ascii '' b'',
      ascii ''2. '' @ [0x25A1] @ ascii '' c'']"
  by (simp add: py_splitlines_def rendering_abc_def line_boundaries_def)

text \<open>
  C1, evaluated on the code at the scenario of the claim: a plan with three steps is
  created and step 1 is marked completed. The text the tool returns, and returns again
  for \<open>get\<close>, has no line \<open>Steps:\<close>; its step section starts with a line of the five
  code points U+6B65 U+9AA4 U+8BE6 U+60C5 U+FF1A, and the three step lines carry the bare
  symbols U+25A1, U+2713, U+25A1, with no bracketed marker anywhere. The planning agent's
  parser, which looks for \<open>Steps:\<close> and the bracketed markers, finds no current step.
\<close>

theorem scenario_D_rendering:
  "snd (PlanningTool_execute pct_thirds empty_tool create_abc) = tool_abc
   \<and> fst (PlanningTool_execute pct_thirds tool_abc (mark_args 1 completed)) =
       Inr (ToolResult_output ([0x6B65, 0x9AA4] @ ascii ''1'' @ [0x5DF2, 0x66F4, 0x65B0] @ [10, 10]
              @ rendering_abc))
   \<and> fst (PlanningTool_execute pct_thirds
             (snd (PlanningTool_execute pct_thirds tool_abc (mark_args 1 completed)))
             \<lparr>command = ascii ''get'', arg_plan_id = None, arg_title = None, arg_steps = None,
              arg_step_index = None, arg_step_status = None, arg_step_notes = None\<rparr>) =
       Inr (ToolResult_output rendering_abc)
   \<and> drop 6 (py_splitlines rendering_abc) =
       [[0x6B65, 0x9AA4, 0x8BE6, 0x60C5, 0xFF1A],
        ascii ''0. '' @ [0x25A1] @ ascii '' a'',
        ascii ''1. '' @ [0x2713] @ ascii '' b'',
        ascii ''2. '' @ [0x25A1] @ ascii '' c'']
   \<and> ascii ''Steps:'' \<notin> set (map strip (py_splitlines rendering_abc))
   \<and> list_all (\<lambda>line. \<not> contains (ascii ''[ ]'') line
                       \<and> \<not> contains (ascii ''['' @ [0x2713] @ ascii '']'') line)
        (py_splitlines rendering_abc)
   \<and> parse_current_step rendering_abc = None"
proof -
  have s: "ascii ''Steps:'' \<notin> set (map strip (py_splitlines rendering_abc))"
    unfolding lines_abc by (simp add: strip_def is_space_def)
  have l: "list_all (\<lambda>line. \<not> contains (ascii ''[ ]'') line
                       \<and> \<not> contains (ascii ''['' @ [0x2713] @ ascii '']'') line)
        (py_splitlines rendering_abc)"
    unfolding lines_abc by simp
  have p: "parse_current_step rendering_abc = None"
    unfolding parse_current_step_def lines_abc by (simp add: strip_def is_space_def)
  have d: "drop 6 (py_splitlines rendering_abc) =
       [[0x6B65, 0x9AA4, 0x8BE6, 0x60C5, 0xFF1A],
        ascii ''0. '' @ [0x25A1] @ ascii '' a'',
        ascii ''1. '' @ [0x2713] @ ascii '' b'',
        ascii ''2. '' @ [0x25A1] @ ascii '' c'']"
    unfolding lines_abc by simp
  show ?thesis
    unfolding mark_abc create_abc_result using s l p d get_abc by simp
qed

section \<open>Properties of the agent core\<close>

lemma handle_stuck_state_fields [simp]:
  "current_step (handle_stuck_state ag) = current_step ag"
  "max_steps (handle_stuck_state ag) = max_steps ag"
  "state (handle_stuck_state ag) = state ag"
  "memory (handle_stuck_state ag) = memory ag"
  by (simp_all add: handle_stuck_state_def)

lemma run_loop_stop:
  "\<not> (current_step ag < max_steps ag \<and> state ag \<noteq> FINISHED)
     \<Longrightarrow> run_loop step ag rs n = Some (Inr rs, ag, n)"
  by (subst run_loop.simps) auto

lemma run_loop_fault:
  "current_step ag < max_steps ag \<Longrightarrow> state ag \<noteq> FINISHED
     \<Longrightarrow> step (ag\<lparr>current_step := current_step ag + 1\<rparr>) = (Inl e, ag1)
     \<Longrightarrow> run_loop step ag rs n = Some (Inl e, ag1, Suc n)"
  by (subst run_loop.simps) simp

lemma run_loop_next:
  "current_step ag < max_steps ag \<Longrightarrow> state ag \<noteq> FINISHED
     \<Longrightarrow> step (ag\<lparr>current_step := current_step ag + 1\<rparr>) = (Inr r, ag1)
     \<Longrightarrow> run_loop step ag rs n =
           run_loop step (if is_stuck ag1 then handle_stuck_state ag1 else ag1)
             (rs @ [step_line (current_step (if is_stuck ag1 then handle_stuck_state ag1 else ag1)) r])
             (Suc n)"
  by (subst run_loop.simps) (simp add: Let_def)

lemma run_loop_returns:
  assumes k: "keeps_counters step"
  shows "\<exists>out ag' n'. run_loop step ag rs n = Some (out, ag', n')
           \<and> n \<le> n' \<and> max_steps ag' = max_steps ag
           \<and> current_step ag' = current_step ag + int (n' - n)
           \<and> (n < n' \<longrightarrow> current_step ag' \<le> max_steps ag)
           \<and> (n' = n \<longrightarrow> ag' = ag)
           \<and> (case out of
                 Inl e \<Rightarrow> n < n'
               | Inr rs' \<Rightarrow> length rs' = length rs + (n' - n)
                            \<and> (state ag' = FINISHED \<or> max_steps ag' \<le> current_step ag'))"
proof (induction "nat (max_steps ag - current_step ag)" arbitrary: ag rs n rule: less_induct)
  case less
  show ?case
  proof (cases "current_step ag < max_steps ag \<and> state ag \<noteq> FINISHED")
    case False
    show ?thesis
      unfolding run_loop_stop[OF False] using False by auto
  next
    case True
    obtain r ag1 where s: "step (ag\<lparr>current_step := current_step ag + 1\<rparr>) = (r, ag1)"
      by (cases "step (ag\<lparr>current_step := current_step ag + 1\<rparr>)")
    have "current_step (snd (step (ag\<lparr>current_step := current_step ag + 1\<rparr>)))
            = current_step (ag\<lparr>current_step := current_step ag + 1\<rparr>)"
         "max_steps (snd (step (ag\<lparr>current_step := current_step ag + 1\<rparr>)))
            = max_steps (ag\<lparr>current_step := current_step ag + 1\<rparr>)"
      using k unfolding keeps_counters_def by blast+
    then have c1: "current_step ag1 = current_step ag + 1" "max_steps ag1 = max_steps ag"
      by (simp_all add: s)
    show ?thesis
    proof (cases r)
      case (Inl e)
      have "run_loop step ag rs n = Some (Inl e, ag1, Suc n)"
        using True s Inl by (intro run_loop_fault) simp_all
      then show ?thesis
        using True c1 by simp
    next
      case (Inr step_result)
      define ag2 where "ag2 = (if is_stuck ag1 then handle_stuck_state ag1 else ag1)"
      define rs2 where "rs2 = rs @ [step_line (current_step ag2) step_result]"
      have c2: "current_step ag2 = current_step ag + 1" "max_steps ag2 = max_steps ag"
        using c1 by (simp_all add: ag2_def)
      have m: "nat (max_steps ag2 - current_step ag2) < nat (max_steps ag - current_step ag)"
        using True c2 by simp
      have l2: "length rs2 = Suc (length rs)"
        by (simp add: rs2_def)
      obtain out ag' n' where
        IH: "run_loop step ag2 rs2 (Suc n) = Some (out, ag', n')"
          "Suc n \<le> n'" "max_steps ag' = max_steps ag2"
          "current_step ag' = current_step ag2 + int (n' - Suc n)"
          "Suc n < n' \<longrightarrow> current_step ag' \<le> max_steps ag2"
          "(case out of
                 Inl e \<Rightarrow> Suc n < n'
               | Inr rs' \<Rightarrow> length rs' = length rs2 + (n' - Suc n)
                            \<and> (state ag' = FINISHED \<or> max_steps ag' \<le> current_step ag'))"
        using less[OF m, of rs2 "Suc n"] by blast
      have eq: "run_loop step ag rs n = Some (out, ag', n')"
        using run_loop_next[of ag step step_result ag1 rs n] True s Inr IH(1)
        by (simp add: ag2_def rs2_def)
      have b: "current_step ag' \<le> max_steps ag"
      proof (cases "Suc n < n'")
        case True
        then show ?thesis using IH(5) c2 by simp
      next
        case False
        then have "n' = Suc n" using IH(2) by simp
        then show ?thesis using IH(4) c2 True by simp
      qed
      have cs: "current_step ag' = current_step ag + int (n' - n)"
        using IH(2,4) c2 by simp
      have o: "(case out of
                 Inl e \<Rightarrow> n < n'
               | Inr rs' \<Rightarrow> length rs' = length rs + (n' - n)
                            \<and> (state ag' = FINISHED \<or> max_steps ag' \<le> current_step ag'))"
        using IH(2,6) l2 by (cases out) auto
      show ?thesis
        unfolding eq using IH(2,3) c2 b cs o by simp
    qed
  qed
qed

lemma state_context_state:
  "state_context new_state body ag = Some (out, ag') \<Longrightarrow> state ag' = state ag"
  by (auto simp: state_context_def Let_def split: option.splits sum.splits prod.splits)

lemma join_nonempty: "rs \<noteq> [] \<Longrightarrow> join sep (rs @ [x]) = join sep rs @ sep @ x"
  by (induction sep rs rule: join.induct) auto

lemma is_stuck_empty [simp]: "memory ag = [] \<Longrightarrow> \<not> is_stuck ag"
  by (simp add: is_stuck_def)

lemma loop_finish:
  "run_loop step_finish (agent0\<lparr>state := RUNNING\<rparr>) [] 0 =
     Some (Inr [step_line 1 (ascii ''done'')], agent0\<lparr>state := FINISHED, current_step := 1\<rparr>, 1)"
  apply (subst run_loop.simps)
  apply (simp add: agent0_def step_finish_def)
  apply (subst run_loop.simps)
  apply (simp add: agent0_def step_finish_def)
  done

lemma run_finish:
  "run state_name step_finish agent0 None =
     Some (Inr (step_line 1 (ascii ''done'')), agent0\<lparr>current_step := 1\<rparr>)"
  by (simp add: run_def with_request_def state_context_def run_body_def loop_finish)
     (simp add: agent0_def)

lemma loop_ok:
  "run_loop step_ok (agent0\<lparr>state := RUNNING\<rparr>) [] 0 =
     Some (Inr [step_line 1 (ascii ''ok''), step_line 2 (ascii ''ok''), step_line 3 (ascii ''ok'')],
           agent0\<lparr>state := RUNNING, current_step := 3\<rparr>, 3)"
  apply (subst run_loop.simps)
  apply (simp add: agent0_def step_ok_def)
  apply (subst run_loop.simps)
  apply (simp add: agent0_def step_ok_def)
  apply (subst run_loop.simps)
  apply (simp add: agent0_def step_ok_def)
  apply (subst run_loop.simps)
  apply (simp add: agent0_def step_ok_def)
  done

lemma keeps_counters_examples [simp]:
  "keeps_counters step_ok" "keeps_counters step_finish" "keeps_counters step_raise"
  by (simp_all add: keeps_counters_def step_ok_def step_finish_def step_raise_def)

lemma loop_ok_resumed:
  "run_loop step_ok (agent0\<lparr>current_step := 1, state := RUNNING\<rparr>) [] 0 =
     Some (Inr [step_line 2 (ascii ''ok''), step_line 3 (ascii ''ok'')],
           agent0\<lparr>state := RUNNING, current_step := 3\<rparr>, 2)"
  apply (subst run_loop.simps)
  apply (simp add: agent0_def step_ok_def)
  apply (subst run_loop.simps)
  apply (simp add: agent0_def step_ok_def)
  apply (subst run_loop.simps)
  apply (simp add: agent0_def step_ok_def)
  done

lemma loop_raise:
  "run_loop step_raise (agent0\<lparr>state := RUNNING\<rparr>) [] 0 =
     Some (Inl (ValueError (ascii ''boom'')), agent0\<lparr>state := RUNNING, current_step := 1\<rparr>, 1)"
  apply (subst run_loop.simps)
  apply (simp add: agent0_def step_raise_def)
  done

lemma run_of_loop:
  assumes i: "state ag = IDLE"
    and l: "run_loop step ((with_request ag request)\<lparr>state := RUNNING\<rparr>) [] 0 = Some (out, agL, n)"
  shows "run str_state step ag request =
             (case out of
                Inl e \<Rightarrow> Some (Inl e, agL\<lparr>state := IDLE\<rparr>)
              | Inr results \<Rightarrow>
                  if max_steps agL \<le> current_step agL
                  then Some (Inr (join [10] (results @ [termination_notice (max_steps agL)])),
                             agL\<lparr>current_step := 0, state := IDLE\<rparr>)
                  else Some (Inr (if results \<noteq> [] then join [10] results
                                  else [0x672A, 0x6267, 0x884C, 0x4EFB, 0x4F55, 0x6B65, 0x9AA4]),
                             agL\<lparr>state := IDLE\<rparr>))"
proof -
  have w: "state (with_request ag request) = IDLE"
    using i by (simp add: with_request_def)
  show ?thesis
    using i w l by (cases out) (simp_all add: run_def state_context_def run_body_def)
qed

text \<open>
  C4, as the code has it. A call of \<open>run\<close> on an agent that is not \<open>IDLE\<close> raises the
  \<open>RuntimeError\<close> at once, whatever \<open>step\<close> is, and leaves the agent as it was, so an agent
  that was \<open>RUNNING\<close> is still \<open>RUNNING\<close>. A call on an \<open>IDLE\<close> agent, whether it returns
  or raises, leaves the agent \<open>IDLE\<close>: the scope puts the previous state back, after
  \<open>ERROR\<close> was set when a fault passed through it.
\<close>

theorem run_state_after:
  "(state ag \<noteq> IDLE \<longrightarrow>
      run str_state step ag request =
        Some (Inl (RuntimeError ([0x65E0, 0x6CD5, 0x4ECE, 0x72B6, 0x6001, 0x8FD0, 0x884C, 0x4EE3,
                     0x7406] @ ascii '': '' @ str_state (state ag))), ag))
   \<and> (state ag = IDLE \<longrightarrow>
        (\<forall>out ag'. run str_state step ag request = Some (out, ag') \<longrightarrow> state ag' = IDLE))"
proof (intro conjI impI allI)
  assume "state ag \<noteq> IDLE"
  then show "run str_state step ag request =
        Some (Inl (RuntimeError ([0x65E0, 0x6CD5, 0x4ECE, 0x72B6, 0x6001, 0x8FD0, 0x884C, 0x4EE3,
                     0x7406] @ ascii '': '' @ str_state (state ag))), ag)"
    by (simp add: run_def)
next
  fix out ag'
  assume i: "state ag = IDLE" and r: "run str_state step ag request = Some (out, ag')"
  have w: "state (with_request ag request) = IDLE"
    using i by (simp add: with_request_def)
  from r i obtain o2 where "state_context RUNNING (run_body step) (with_request ag request) = Some (o2, ag')"
    by (auto simp: run_def split: option.splits sum.splits prod.splits)
  from state_context_state[OF this] w show "state ag' = IDLE"
    by simp
qed


theorem run_state_after_witness:
  "run state_name step_finish agent0 None =
     Some (Inr (step_line 1 (ascii ''done'')), agent0\<lparr>current_step := 1\<rparr>)
   \<and> state (agent0\<lparr>current_step := 1\<rparr>) = IDLE
   \<and> run state_name step_finish (agent0\<lparr>state := FINISHED\<rparr>) None =
       Some (Inl (RuntimeError ([0x65E0, 0x6CD5, 0x4ECE, 0x72B6, 0x6001, 0x8FD0, 0x884C, 0x4EE3,
                     0x7406] @ ascii '': FINISHED'')), agent0\<lparr>state := FINISHED\<rparr>)"
proof -
  have i: "state agent0 = IDLE"
    by (simp add: agent0_def)
  have f: "state (agent0\<lparr>state := FINISHED\<rparr>) \<noteq> IDLE"
    by simp
  have a: "state (agent0\<lparr>current_step := 1\<rparr>) = IDLE"
    by (rule run_state_after[THEN conjunct2, rule_format, OF i run_finish])
  have b: "run state_name step_finish (agent0\<lparr>state := FINISHED\<rparr>) None =
       Some (Inl (RuntimeError ([0x65E0, 0x6CD5, 0x4ECE, 0x72B6, 0x6001, 0x8FD0, 0x884C, 0x4EE3,
                     0x7406] @ ascii '': '' @ state_name (state (agent0\<lparr>state := FINISHED\<rparr>)))),
             agent0\<lparr>state := FINISHED\<rparr>)"
    by (rule run_state_after[THEN conjunct1, rule_format, OF f])
  have n: "state_name (state (agent0\<lparr>state := FINISHED\<rparr>)) = ascii ''FINISHED''"
    by (simp add: state_name_def)
  show ?thesis
    unfolding b n using run_finish a by simp
qed

text \<open>The claim of C4 as it was stated fails for a call made while the agent is
  \<open>RUNNING\<close>: the call raises and the agent is \<open>RUNNING\<close> afterwards.\<close>

theorem run_rejected_while_running:
  "run state_name step_ok (agent0\<lparr>state := RUNNING\<rparr>) None =
     Some (Inl (RuntimeError ([0x65E0, 0x6CD5, 0x4ECE, 0x72B6, 0x6001, 0x8FD0, 0x884C, 0x4EE3,
                     0x7406] @ ascii '': RUNNING'')), agent0\<lparr>state := RUNNING\<rparr>)
   \<and> state (agent0\<lparr>state := RUNNING\<rparr>) = RUNNING"
  by (simp add: run_def state_name_def)

text \<open>
  C5, as the code has it. For a step that keeps the two counters, a call of \<open>run\<close> on an
  \<open>IDLE\<close> agent ends, after at most \<open>max_steps - current_step\<close> calls of \<open>step\<close> (none
  when that is negative), counted from the value \<open>current_step\<close> has at the call. It
  makes exactly that many unless \<open>step\<close> raises or the state becomes \<open>FINISHED\<close>. When
  the loop ends with the counter at \<open>max_steps\<close>, the counter is set to 0, the agent is
  \<open>IDLE\<close> and the trace returned ends with the notice; otherwise the state was
  \<open>FINISHED\<close> and the trace is the step lines alone.
\<close>

theorem run_step_budget:
  assumes k: "keeps_counters step" and i: "state ag = IDLE"
  shows "\<exists>out agL n.
      run_loop step ((with_request ag request)\<lparr>state := RUNNING\<rparr>) [] 0 = Some (out, agL, n)
      \<and> int n \<le> max 0 (max_steps ag - current_step ag)
      \<and> (case out of
           Inl e \<Rightarrow> run str_state step ag request = Some (Inl e, agL\<lparr>state := IDLE\<rparr>)
         | Inr results \<Rightarrow>
             length results = n
             \<and> (state agL \<noteq> FINISHED \<longrightarrow> int n = max 0 (max_steps ag - current_step ag))
             \<and> (if max_steps ag \<le> current_step agL
                then run str_state step ag request =
                       Some (Inr (join [10] (results @ [termination_notice (max_steps ag)])),
                             agL\<lparr>current_step := 0, state := IDLE\<rparr>)
                else state agL = FINISHED
                     \<and> run str_state step ag request =
                         Some (Inr (join [10] results), agL\<lparr>state := IDLE\<rparr>)))"
proof -
  define entry where "entry = (with_request ag request)\<lparr>state := RUNNING\<rparr>"
  have e: "max_steps entry = max_steps ag" "current_step entry = current_step ag"
          "state entry = RUNNING"
    by (simp_all add: entry_def with_request_def)
  obtain out agL n where
    L: "run_loop step entry [] 0 = Some (out, agL, n)"
       "max_steps agL = max_steps entry"
       "current_step agL = current_step entry + int (n - 0)"
       "0 < n \<longrightarrow> current_step agL \<le> max_steps entry"
       "n = 0 \<longrightarrow> agL = entry"
       "(case out of
                 Inl e \<Rightarrow> 0 < n
               | Inr rs' \<Rightarrow> length rs' = length ([]::pystr list) + (n - 0)
                            \<and> (state agL = FINISHED \<or> max_steps agL \<le> current_step agL))"
    using run_loop_returns[OF k, of entry "[]" 0] by blast
  have w: "state (with_request ag request) = IDLE"
    using i by (simp add: with_request_def)
  have b: "int n \<le> max 0 (max_steps ag - current_step ag)"
    using L(3,4) e by (cases "n = 0") auto
  have r: "run str_state step ag request =
             (case out of
                Inl e \<Rightarrow> Some (Inl e, agL\<lparr>state := IDLE\<rparr>)
              | Inr results \<Rightarrow>
                  if max_steps agL \<le> current_step agL
                  then Some (Inr (join [10] (results @ [termination_notice (max_steps agL)])),
                             agL\<lparr>current_step := 0, state := IDLE\<rparr>)
                  else Some (Inr (if results \<noteq> [] then join [10] results
                                  else [0x672A, 0x6267, 0x884C, 0x4EFB, 0x4F55, 0x6B65, 0x9AA4]),
                             agL\<lparr>state := IDLE\<rparr>))"
    using i w L(1) unfolding entry_def
    by (cases out) (simp_all add: run_def state_context_def run_body_def)
  show ?thesis
  proof (cases out)
    case (Inl err)
    show ?thesis
      apply (rule exI[of _ out], rule exI[of _ agL], rule exI[of _ n])
      using L(1) b r Inl unfolding entry_def by simp
  next
    case (Inr results)
    have len: "length results = n"
      using L(6) Inr by simp
    have fin: "state agL = FINISHED \<or> max_steps agL \<le> current_step agL"
      using L(6) Inr by simp
    have exact: "state agL \<noteq> FINISHED \<longrightarrow> int n = max 0 (max_steps ag - current_step ag)"
      using fin L(2,3,4) e by (cases "n = 0") auto
    have ne: "\<not> max_steps agL \<le> current_step agL \<Longrightarrow> results \<noteq> []"
    proof -
      assume "\<not> max_steps agL \<le> current_step agL"
      then have "state agL = FINISHED" using fin by simp
      then have "n \<noteq> 0" using L(5) e by auto
      then show "results \<noteq> []" using len by auto
    qed
    show ?thesis
      apply (rule exI[of _ out], rule exI[of _ agL], rule exI[of _ n])
      using L(1,2) b r Inr len exact fin ne e unfolding entry_def by auto
  qed
qed

theorem run_step_budget_witness:
  "run_loop step_ok (agent0\<lparr>state := RUNNING\<rparr>) [] 0 =
     Some (Inr [step_line 1 (ascii ''ok''), step_line 2 (ascii ''ok''), step_line 3 (ascii ''ok'')],
           agent0\<lparr>state := RUNNING, current_step := 3\<rparr>, 3)
   \<and> run state_name step_ok agent0 None =
       Some (Inr (join [10] [step_line 1 (ascii ''ok''), step_line 2 (ascii ''ok''),
                             step_line 3 (ascii ''ok''), termination_notice 3]), agent0)"
proof -
  have i: "state agent0 = IDLE" by (simp add: agent0_def)
  have w: "with_request agent0 None = agent0" by (simp add: with_request_def)
  have a: "agent0\<lparr>current_step := 0, state := IDLE\<rparr> = agent0"
    by (simp add: agent0_def)
  have m: "max_steps agent0 = 3" by (simp add: agent0_def)
  show ?thesis
    using run_step_budget[of step_ok agent0 None state_name] i
    unfolding w loop_ok by (simp add: m a)
qed

text \<open>
  The claim of C5 as it was stated fails: with \<open>max_steps = 3\<close>, a run after one that
  finished at its first step makes two calls of \<open>step\<close> and stops with the state never
  \<open>FINISHED\<close>; and a run whose step raises stops after one call.
\<close>

theorem run_stops_early_unfinished:
  "max_steps agent0 = 3
   \<and> run state_name step_finish agent0 None =
       Some (Inr (step_line 1 (ascii ''done'')), agent0\<lparr>current_step := 1\<rparr>)
   \<and> run_loop step_ok ((with_request (agent0\<lparr>current_step := 1\<rparr>) None)\<lparr>state := RUNNING\<rparr>) [] 0 =
       Some (Inr [step_line 2 (ascii ''ok''), step_line 3 (ascii ''ok'')],
             agent0\<lparr>state := RUNNING, current_step := 3\<rparr>, 2)
   \<and> state (agent0\<lparr>state := RUNNING, current_step := 3\<rparr>) \<noteq> FINISHED
   \<and> run_loop step_raise ((with_request agent0 None)\<lparr>state := RUNNING\<rparr>) [] 0 =
       Some (Inl (ValueError (ascii ''boom'')), agent0\<lparr>state := RUNNING, current_step := 1\<rparr>, 1)
   \<and> state (agent0\<lparr>state := RUNNING, current_step := 1\<rparr>) \<noteq> FINISHED"
  by (simp add: run_finish with_request_def loop_ok_resumed loop_raise) (simp add: agent0_def)



lemma sum_ones: "(\<Sum>x\<leftarrow>xs. (1::int)) = int (length xs)"
  by (induction xs) auto

text \<open>
  C8. \<open>is_stuck\<close> is true exactly when the memory has at least two messages, the last
  message has a content that is not empty, and the number of the messages before the
  last that have the role assistant and the content of the last message is at least
  \<open>duplicate_threshold\<close>; so it is false with fewer than two messages and with an empty
  last content.
\<close>

theorem is_stuck_iff:
  "is_stuck ag =
     (2 \<le> length (memory ag) \<and> truthy (content (last (memory ag)))
      \<and> duplicate_threshold ag \<le> int (prior_duplicates (memory ag)))"
proof -
  have "length (filter (\<lambda>m. role m = Assistant \<and> content m = content (last (memory ag)))
                  (rev (butlast (memory ag))))
        = prior_duplicates (memory ag)"
    unfolding prior_duplicates_def by (simp add: rev_filter[symmetric])
  then show ?thesis
    by (auto simp: is_stuck_def Let_def sum_ones)
qed

theorem is_stuck_iff_witness:
  "is_stuck agent_repeating \<and> prior_duplicates (memory agent_repeating) = 2
   \<and> duplicate_threshold agent_repeating = 2
   \<and> \<not> is_stuck (agent_repeating\<lparr>duplicate_threshold := 3\<rparr>)
   \<and> \<not> is_stuck agent0"
proof -
  have p: "prior_duplicates (memory agent_repeating) = 2"
    by (simp add: prior_duplicates_def agent_repeating_def assistant_message_def)
  have m: "memory (agent_repeating\<lparr>duplicate_threshold := 3\<rparr>) = memory agent_repeating"
    by simp
  have l: "length (memory agent_repeating) = 3"
          "truthy (content (last (memory agent_repeating)))"
    by (simp_all add: agent_repeating_def assistant_message_def)
  have d: "duplicate_threshold agent_repeating = 2"
    by (simp add: agent_repeating_def agent0_def)
  have z: "memory agent0 = []"
    by (simp add: agent0_def)
  show ?thesis
    using is_stuck_iff[of agent_repeating]
          is_stuck_iff[of "agent_repeating\<lparr>duplicate_threshold := 3\<rparr>"]
          is_stuck_iff[of agent0]
    unfolding m p by (simp add: l d z)
qed

section \<open>Properties of the tool registry\<close>

lemma tool_map_examples:
  "tool_map (ToolCollection [Terminate, Refusing]) (ascii ''terminate'') = Some Terminate"
  "tool_map (ToolCollection [Terminate, Refusing]) (ascii ''refusing'') = Some Refusing"
  "tool_map (ToolCollection [Terminate, Refusing]) (ascii ''planning'') = None"
  by (simp_all add: ToolCollection_def Terminate_def Refusing_def)

text \<open>
  C3, as the code has it. \<open>execute\<close> on a name that is not registered returns a
  \<open>ToolFailure\<close> whose error is the unknown-tool message ending with the name; a
  \<open>ToolError\<close> raised by the registered tool becomes a \<open>ToolFailure\<close> with its message;
  what the tool returns is returned; every other fault the tool raises is raised by
  \<open>execute\<close> to its caller; and \<open>execute\<close> raises in no other case.
\<close>

theorem execute_failure_results:
  "(tool_map c nm = None \<longrightarrow>
      ToolCollection_execute c nm inp =
        Inr (ToolFailure (failure ([0x5DE5, 0x5177, 0x4E0D, 0x5B58, 0x5728, 0xFF1A] @ nm))))
   \<and> (\<forall>tool m. tool_map c nm = Some tool \<and> execute tool (list_of inp) = Inl (ToolError m) \<longrightarrow>
         ToolCollection_execute c nm inp = Inr (ToolFailure (failure m)))
   \<and> (\<forall>tool r. tool_map c nm = Some tool \<and> execute tool (list_of inp) = Inr r \<longrightarrow>
         ToolCollection_execute c nm inp = Inr (Returned r))
   \<and> (\<forall>tool e. tool_map c nm = Some tool \<and> execute tool (list_of inp) = Inl e
           \<and> (\<forall>m. e \<noteq> ToolError m) \<longrightarrow>
         ToolCollection_execute c nm inp = Inl e)
   \<and> (\<forall>e. ToolCollection_execute c nm inp = Inl e \<longrightarrow>
         (\<exists>tool. tool_map c nm = Some tool \<and> execute tool (list_of inp) = Inl e)
         \<and> (\<forall>m. e \<noteq> ToolError m))"
  by (auto simp: ToolCollection_execute_def split: option.splits sum.splits fault.splits)

theorem execute_failure_results_witness:
  "ToolCollection_execute (ToolCollection [Terminate, Refusing]) (ascii ''planning'') None =
     Inr (ToolFailure (failure ([0x5DE5, 0x5177, 0x4E0D, 0x5B58, 0x5728, 0xFF1A] @ ascii ''planning'')))
   \<and> ToolCollection_execute (ToolCollection [Terminate, Refusing]) (ascii ''refusing'') None =
       Inr (ToolFailure (failure (ascii ''no'')))
   \<and> ToolCollection_execute (ToolCollection [Terminate, Refusing]) (ascii ''terminate'')
         (Some [(ascii ''status'', ascii ''success'')]) =
       Inr (Returned ([0x4EA4, 0x4E92, 0x5DF2, 0x5B8C, 0x6210, 0xFF0C, 0x72B6, 0x6001, 0xFF1A]
                      @ ascii ''success''))
   \<and> ToolCollection_execute (ToolCollection [Terminate, Refusing]) (ascii ''terminate'')
         (Some [(ascii ''status'', ascii ''success''), (ascii ''reason'', ascii ''done'')]) =
       Inl (TypeError (ascii ''Terminate.execute() got an unexpected keyword argument ''
                       @ [39] @ ascii ''reason'' @ [39]))"
proof -
  have a: "execute Refusing (list_of None) = Inl (ToolError (ascii ''no''))"
    by (simp add: Refusing_def)
  have b: "execute Terminate (list_of (Some [(ascii ''status'', ascii ''success'')])) =
       Inr ([0x4EA4, 0x4E92, 0x5DF2, 0x5B8C, 0x6210, 0xFF0C, 0x72B6, 0x6001, 0xFF1A]
            @ ascii ''success'')"
    by (simp add: Terminate_def)
  have d: "execute Terminate
             (list_of (Some [(ascii ''status'', ascii ''success''), (ascii ''reason'', ascii ''done'')])) =
       Inl (TypeError (ascii ''Terminate.execute() got an unexpected keyword argument ''
                       @ [39] @ ascii ''reason'' @ [39]))"
    by (simp add: Terminate_def)
  have n: "\<forall>m. TypeError (ascii ''Terminate.execute() got an unexpected keyword argument ''
                         @ [39] @ ascii ''reason'' @ [39]) \<noteq> ToolError m"
    by simp
  note t = execute_failure_results[of "ToolCollection [Terminate, Refusing]"]
  show ?thesis
    using t[of "ascii ''planning''" None, THEN conjunct1, rule_format, OF tool_map_examples(3)]
          t[of "ascii ''refusing''" None, THEN conjunct2, THEN conjunct1, rule_format,
            OF conjI[OF tool_map_examples(2) a]]
          t[of "ascii ''terminate''" "Some [(ascii ''status'', ascii ''success'')]",
            THEN conjunct2, THEN conjunct2, THEN conjunct1, rule_format,
            OF conjI[OF tool_map_examples(1) b]]
          t[of "ascii ''terminate''"
               "Some [(ascii ''status'', ascii ''success''), (ascii ''reason'', ascii ''done'')]",
            THEN conjunct2, THEN conjunct2, THEN conjunct2, THEN conjunct1, rule_format,
            OF conjI[OF tool_map_examples(1) conjI[OF d n]]]
    by simp
qed

text \<open>The claim of C3 as it was stated fails: the terminate tool called without its
  \<open>status\<close> raises \<open>TypeError\<close>, and \<open>execute\<close> raises it too.\<close>

theorem execute_lets_other_faults_through:
  "ToolCollection_execute (ToolCollection [Terminate, Refusing]) (ascii ''terminate'') None =
     Inl (TypeError (ascii ''Terminate.execute() missing 1 required positional argument: ''
                     @ [39] @ ascii ''status'' @ [39]))"
  unfolding ToolCollection_execute_def tool_map_examples by (simp add: Terminate_def)

text \<open>
  C9, as the code has it. \<open>add_tool\<close> sets the dictionary entry of the tool's name, so a
  later tool of the same name replaces the earlier one there and adding the same tool
  twice gives the dictionary of adding it once; the tuple of the tools, and with it the
  list \<open>to_params\<close> advertises, grows by one entry at every call. \<open>add_tools\<close> does this
  for each tool in turn.
\<close>

theorem add_tool_registers:
  "tool_map (add_tool c t) = (tool_map c)(name t \<mapsto> t)
   \<and> tools (add_tool c t) = tools c @ [t]
   \<and> to_params (add_tool c t) = to_params c @ [to_param t]
   \<and> (name t' = name t \<longrightarrow> tool_map (add_tool (add_tool c t) t') = tool_map (add_tool c t'))
   \<and> tool_map (add_tool (add_tool c t) t) = tool_map (add_tool c t)
   \<and> tool_map (add_tools c ts) = foldl (\<lambda>m tool. m(name tool \<mapsto> tool)) (tool_map c) ts
   \<and> to_params (add_tools c ts) = to_params c @ map to_param ts"
proof -
  have m: "tool_map (foldl add_tool c ts) = foldl (\<lambda>m tool. m(name tool \<mapsto> tool)) (tool_map c) ts"
    by (induction ts arbitrary: c) (simp_all add: add_tool_def)
  have l: "tools (foldl add_tool c ts) = tools c @ ts"
    by (induction ts arbitrary: c) (simp_all add: add_tool_def)
  show ?thesis
    using m l by (simp add: add_tool_def add_tools_def to_params_def)
qed

theorem add_tool_registers_witness:
  "tool_map (add_tool (add_tool (ToolCollection []) Terminate) (Terminate\<lparr>description := ascii ''later''\<rparr>))
     (ascii ''terminate'') = Some (Terminate\<lparr>description := ascii ''later''\<rparr>)
   \<and> map function_description
        (to_params (add_tool (add_tool (ToolCollection []) Terminate)
                      (Terminate\<lparr>description := ascii ''later''\<rparr>))) = [description Terminate, ascii ''later'']"
proof -
  have n: "name (Terminate\<lparr>description := ascii ''later''\<rparr>) = name Terminate"
    by simp
  have "tool_map (add_tool (add_tool (ToolCollection []) Terminate) (Terminate\<lparr>description := ascii ''later''\<rparr>))
        = tool_map (add_tool (ToolCollection []) (Terminate\<lparr>description := ascii ''later''\<rparr>))"
    using add_tool_registers[of "ToolCollection []" Terminate "Terminate\<lparr>description := ascii ''later''\<rparr>" "[]"] n
    by blast
  then show ?thesis
    by (simp add: add_tool_def to_params_def to_param_def ToolCollection_def Terminate_def)
qed

text \<open>The claim of C9 as it was stated fails: after the same tool is added twice,
  \<open>to_params\<close> advertises it twice, and the registry differs from the one it was added
  to once.\<close>

theorem add_tool_twice_advertises_twice:
  "map function_name (to_params (add_tool (add_tool (ToolCollection []) Terminate) Terminate))
     = [ascii ''terminate'', ascii ''terminate'']
   \<and> map function_name (to_params (add_tool (ToolCollection []) Terminate)) = [ascii ''terminate'']
   \<and> add_tool (add_tool (ToolCollection []) Terminate) Terminate
       \<noteq> add_tool (ToolCollection []) Terminate"
proof -
  have a: "map function_name (to_params (add_tool (add_tool (ToolCollection []) Terminate) Terminate))
     = [ascii ''terminate'', ascii ''terminate'']"
    by (simp add: add_tool_def to_params_def to_param_def ToolCollection_def Terminate_def)
  have b: "map function_name (to_params (add_tool (ToolCollection []) Terminate)) = [ascii ''terminate'']"
    by (simp add: add_tool_def to_params_def to_param_def ToolCollection_def Terminate_def)
  have "add_tool (add_tool (ToolCollection []) Terminate) Terminate
       \<noteq> add_tool (ToolCollection []) Terminate"
  proof
    assume "add_tool (add_tool (ToolCollection []) Terminate) Terminate
              = add_tool (ToolCollection []) Terminate"
    then have "map function_name (to_params (add_tool (add_tool (ToolCollection []) Terminate) Terminate))
                 = map function_name (to_params (add_tool (ToolCollection []) Terminate))"
      by simp
    then show False
      unfolding a b by simp
  qed
  then show ?thesis
    using a b by simp
qed

section \<open>Properties of the tool-calling agent\<close>

lemma called_names_cases:
  "called_names calls =
     (if list_all (\<lambda>call. call_function call \<noteq> None) calls
      then Inr (map (\<lambda>call. call_name (the (call_function call))) calls)
      else Inl (AttributeError ([39] @ ascii ''NoneType'' @ [39] @ ascii '' object has no attribute ''
                                @ [39] @ ascii ''name'' @ [39])))"
  by (induction calls) (auto split: option.splits)

lemma tools_being_prepared_cases:
  "tools_being_prepared resp =
     (if list_all (\<lambda>call. call_function call \<noteq> None) (list_of (response_tool_calls resp))
      then Inr (map (\<lambda>call. call_name (the (call_function call))) (list_of (response_tool_calls resp)))
      else Inl (AttributeError ([39] @ ascii ''NoneType'' @ [39] @ ascii '' object has no attribute ''
                                @ [39] @ ascii ''name'' @ [39])))"
  unfolding tools_being_prepared_def called_names_cases by simp

text \<open>
  C2, as the code has it. A fault raised inside the \<open>try\<close> block of \<open>think\<close> (by the
  construction of the assistant message from the tool calls) is caught: the memory
  gains an assistant message with the error text and \<open>think\<close> returns false; so when the
  model client returns a reply whose tool calls all have a function, \<open>think\<close> returns a
  truth value and never a fault. A fault raised before the \<open>try\<close> block goes on to the
  caller of \<open>think\<close>, with no error message recorded: the fault the model client raises,
  the \<open>AttributeError\<close> of reading the tool calls of no reply, and the \<open>AttributeError\<close>
  of reading the name of a call without a function, raised after the reply's tool calls
  were stored in the agent. These are all the cases, so \<open>think\<close> raises in no other.
\<close>

theorem think_catches_processing_faults:
  "(\<forall>resp.
       ask_tool (memory (with_next_step_prompt ag)) (system_msgs ag) (tool_choices ag) = Inr (Some resp)
       \<and> list_all (\<lambda>call. call_function call \<noteq> None) (list_of (response_tool_calls resp)) \<longrightarrow>
       (\<exists>b ag'. think ask_tool from_tool_calls ag = (Inr b, ag'))
       \<and> (\<forall>e. tool_choices ag \<noteq> NONE \<and> list_of (response_tool_calls resp) \<noteq> []
               \<and> from_tool_calls (response_content resp) (list_of (response_tool_calls resp)) = Inl e \<longrightarrow>
             think ask_tool from_tool_calls ag =
               (Inr False,
                (with_next_step_prompt ag)
                  \<lparr>agent_tool_calls := response_tool_calls resp,
                   memory := memory (with_next_step_prompt ag)
                     @ [assistant_message
                          (Some (ascii ''Error encountered while processing: '' @ str_fault e))]\<rparr>)))
   \<and> (\<forall>e. ask_tool (memory (with_next_step_prompt ag)) (system_msgs ag) (tool_choices ag) = Inl e \<longrightarrow>
         think ask_tool from_tool_calls ag = (Inl e, with_next_step_prompt ag))
   \<and> (ask_tool (memory (with_next_step_prompt ag)) (system_msgs ag) (tool_choices ag) = Inr None \<longrightarrow>
         think ask_tool from_tool_calls ag =
           (Inl (AttributeError ([39] @ ascii ''NoneType'' @ [39] @ ascii '' object has no attribute ''
                                 @ [39] @ ascii ''tool_calls'' @ [39])),
            with_next_step_prompt ag))
   \<and> (\<forall>resp.
         ask_tool (memory (with_next_step_prompt ag)) (system_msgs ag) (tool_choices ag) = Inr (Some resp)
         \<and> \<not> list_all (\<lambda>call. call_function call \<noteq> None) (list_of (response_tool_calls resp)) \<longrightarrow>
         think ask_tool from_tool_calls ag =
           (Inl (AttributeError ([39] @ ascii ''NoneType'' @ [39] @ ascii '' object has no attribute ''
                                 @ [39] @ ascii ''name'' @ [39])),
            (with_next_step_prompt ag)\<lparr>agent_tool_calls := response_tool_calls resp\<rparr>))"
proof -
  have f: "system_msgs (with_next_step_prompt ag) = system_msgs ag"
          "tool_choices (with_next_step_prompt ag) = tool_choices ag"
    by (simp_all add: with_next_step_prompt_def system_msgs_def)
  show ?thesis
    unfolding think_def Let_def tools_being_prepared_cases
    by (auto simp: f think_try_def Let_def split: sum.splits prod.splits if_splits)
qed

theorem think_catches_processing_faults_witness:
  "think ask_replies from_tool_calls_raises toolcall_agent0 =
     (Inr False,
      toolcall_agent0\<lparr>agent_tool_calls := response_tool_calls reply_call,
         memory := [user_message (ascii ''next''),
                    assistant_message (Some (ascii ''Error encountered while processing: bad call''))]\<rparr>)
   \<and> (\<exists>b ag'. think ask_replies from_tool_calls_ok toolcall_agent0 = (Inr b, ag'))
   \<and> think ask_raises from_tool_calls_ok toolcall_agent0 =
       (Inl (OtherException (ascii ''connection lost'')),
        toolcall_agent0\<lparr>memory := [user_message (ascii ''next'')]\<rparr>)
   \<and> think ask_returns_none from_tool_calls_ok toolcall_agent0 =
       (Inl (AttributeError ([39] @ ascii ''NoneType'' @ [39] @ ascii '' object has no attribute ''
                             @ [39] @ ascii ''tool_calls'' @ [39])),
        toolcall_agent0\<lparr>memory := [user_message (ascii ''next'')]\<rparr>)
   \<and> think ask_replies_no_function from_tool_calls_ok toolcall_agent0 =
       (Inl (AttributeError ([39] @ ascii ''NoneType'' @ [39] @ ascii '' object has no attribute ''
                             @ [39] @ ascii ''name'' @ [39])),
        toolcall_agent0\<lparr>memory := [user_message (ascii ''next'')],
           agent_tool_calls := response_tool_calls reply_no_function\<rparr>)"
proof -
  have w: "with_next_step_prompt toolcall_agent0 = toolcall_agent0\<lparr>memory := [user_message (ascii ''next'')]\<rparr>"
    by (simp add: with_next_step_prompt_def toolcall_agent0_def)
  have a: "ask_replies (memory (with_next_step_prompt toolcall_agent0)) (system_msgs toolcall_agent0)
             (tool_choices toolcall_agent0) = Inr (Some reply_call)"
    by (simp add: ask_replies_def)
  have p: "list_all (\<lambda>call. call_function call \<noteq> None) (list_of (response_tool_calls reply_call))"
    by (simp add: reply_call_def)
  have r: "ask_raises (memory (with_next_step_prompt toolcall_agent0)) (system_msgs toolcall_agent0)
             (tool_choices toolcall_agent0) = Inl (OtherException (ascii ''connection lost''))"
    by (simp add: ask_raises_def)
  have n: "ask_returns_none (memory (with_next_step_prompt toolcall_agent0)) (system_msgs toolcall_agent0)
             (tool_choices toolcall_agent0) = Inr None"
    by (simp add: ask_returns_none_def)
  have g: "ask_replies_no_function (memory (with_next_step_prompt toolcall_agent0))
             (system_msgs toolcall_agent0) (tool_choices toolcall_agent0) = Inr (Some reply_no_function)"
    by (simp add: ask_replies_no_function_def)
  have q: "\<not> list_all (\<lambda>call. call_function call \<noteq> None)
                 (list_of (response_tool_calls reply_no_function))"
    by (simp add: reply_no_function_def)
  have c: "tool_choices toolcall_agent0 \<noteq> NONE \<and> list_of (response_tool_calls reply_call) \<noteq> []
           \<and> from_tool_calls_raises (response_content reply_call) (list_of (response_tool_calls reply_call))
               = Inl (ValueError (ascii ''bad call''))"
    by (simp add: toolcall_agent0_def reply_call_def from_tool_calls_raises_def)
  note t1 = think_catches_processing_faults[of ask_replies toolcall_agent0 from_tool_calls_raises,
              THEN conjunct1, rule_format, OF conjI[OF a p], THEN conjunct2, rule_format, OF c]
  note t2 = think_catches_processing_faults[of ask_replies toolcall_agent0 from_tool_calls_ok,
              THEN conjunct1, rule_format, OF conjI[OF a p], THEN conjunct1]
  note t3 = think_catches_processing_faults[of ask_raises toolcall_agent0 from_tool_calls_ok,
              THEN conjunct2, THEN conjunct1, rule_format, OF r]
  note t4 = think_catches_processing_faults[of ask_returns_none toolcall_agent0 from_tool_calls_ok,
              THEN conjunct2, THEN conjunct2, THEN conjunct1, rule_format, OF n]
  note t5 = think_catches_processing_faults[of ask_replies_no_function toolcall_agent0 from_tool_calls_ok,
              THEN conjunct2, THEN conjunct2, THEN conjunct2, rule_format, OF conjI[OF g q]]
  show ?thesis
    using t1 t2 t3 t4 t5 unfolding w by simp
qed

text \<open>The claim of C2 as it was stated fails: when the model client raises, \<open>think\<close>
  raises, and when the model client returns no reply, \<open>think\<close> raises \<open>AttributeError\<close>;
  in both cases the memory holds the next-step prompt alone.\<close>

theorem think_propagates_client_fault:
  "think ask_raises from_tool_calls_ok toolcall_agent0 =
     (Inl (OtherException (ascii ''connection lost'')),
      toolcall_agent0\<lparr>memory := [user_message (ascii ''next'')]\<rparr>)
   \<and> think ask_returns_none from_tool_calls_ok toolcall_agent0 =
     (Inl (AttributeError ([39] @ ascii ''NoneType'' @ [39] @ ascii '' object has no attribute ''
                           @ [39] @ ascii ''tool_calls'' @ [39])),
      toolcall_agent0\<lparr>memory := [user_message (ascii ''next'')]\<rparr>)"
  by (simp add: think_def with_next_step_prompt_def ask_raises_def ask_returns_none_def
        toolcall_agent0_def Let_def)

end
